theory Spec2Isabelle
  imports Main "HOL-Library.Word"
begin

unbundle bit_operations_syntax

section \<open>Virtio audio for the SKL architecture: backend and frontend services\<close>

text \<open>
  A shallow embedding of \<^verbatim>\<open>skl-virtio-be.c\<close> (the backend, BE) and
  \<^verbatim>\<open>skl-virtio-fe.c\<close> (the frontend, FE). C integers of a fixed width are words,
  \<^verbatim>\<open>int\<close> return codes are \<^typ>\<open>int\<close>, linked lists are HOL lists in list
  order, and a null pointer is \<^term>\<open>None\<close>. A function whose C body would dereference
  a null or out-of-range pointer returns \<^term>\<open>None\<close> for the whole call.
\<close>

type_synonym u8 = "8 word"
type_synonym u32 = "32 word"
type_synonym u64 = "64 word"

subsection \<open>Error numbers (Linux \<^verbatim>\<open>errno\<close>)\<close>

abbreviation EIO :: int where "EIO \<equiv> 5"
abbreviation EBADF :: int where "EBADF \<equiv> 9"
abbreviation ENOMEM :: int where "ENOMEM \<equiv> 12"
abbreviation EACCES :: int where "EACCES \<equiv> 13"
abbreviation EBUSY :: int where "EBUSY \<equiv> 16"
abbreviation ENODEV :: int where "ENODEV \<equiv> 19"
abbreviation EINVAL :: int where "EINVAL \<equiv> 22"
abbreviation ETIMEDOUT :: int where "ETIMEDOUT \<equiv> 110"

subsection \<open>Backend: the notification channel and the pending queue\<close>

text \<open>
  Modelled from the spec: the descriptor-ring primitives \<^verbatim>\<open>virtio_vq_has_descs\<close>,
  \<^verbatim>\<open>virtio_vq_getchain\<close>, \<^verbatim>\<open>virtio_vq_relchain\<close> and
  \<^verbatim>\<open>virtio_vq_endchains\<close> are not part of the two source files. Following the
  transport contract, a queue holds the buffers the peer has made available (their
  \<^verbatim>\<open>iov_len\<close>, oldest first); taking a chain succeeds exactly when one is available.
  The queue also records what the backend did with it: the chain lengths released, the
  messages copied into chains, and the number of \<^verbatim>\<open>endchains\<close> signals.
\<close>

record 'm virtio_vq_info =
  avail :: "nat list"
  relchains :: "nat list"
  copied :: "'m list"
  endchains :: nat

definition virtio_vq_has_descs :: "'m virtio_vq_info \<Rightarrow> bool" where
  "virtio_vq_has_descs vq = (avail vq \<noteq> [])"

definition virtio_vq_getchain :: "'m virtio_vq_info \<Rightarrow> int \<times> nat \<times> 'm virtio_vq_info" where
  "virtio_vq_getchain vq =
     (case avail vq of
        [] \<Rightarrow> (0, 0, vq)
      | len # rest \<Rightarrow> (1, len, vq\<lparr>avail := rest\<rparr>))"

definition virtio_vq_relchain :: "nat \<Rightarrow> 'm virtio_vq_info \<Rightarrow> 'm virtio_vq_info" where
  "virtio_vq_relchain len vq = vq\<lparr>relchains := relchains vq @ [len]\<rparr>"

definition virtio_vq_endchains :: "'m virtio_vq_info \<Rightarrow> 'm virtio_vq_info" where
  "virtio_vq_endchains vq = vq\<lparr>endchains := Suc (endchains vq)\<rparr>"

text \<open>\<^verbatim>\<open>struct vfe_pending_msg\<close>: a notification and its size.\<close>

record 'm vfe_pending_msg =
  msg :: 'm
  sizeof_msg :: nat

text \<open>
  \<^verbatim>\<open>vbe_skl_try_send\<close>: when a chain is available the message is copied into it and
  the chain is released (twice when the chain is shorter than the message: the C code
  logs the error, releases the chain and carries on); otherwise nothing is sent.
\<close>

definition vbe_skl_try_send ::
  "'m virtio_vq_info \<Rightarrow> 'm \<Rightarrow> nat \<Rightarrow> bool \<times> 'm virtio_vq_info" where
  "vbe_skl_try_send vq buff sz =
     (if virtio_vq_has_descs vq then
        (case virtio_vq_getchain vq of (ret, iov_len, vq1) \<Rightarrow>
           if ret > 0 then
             (let vq2 = (if iov_len < sz then virtio_vq_relchain iov_len vq1 else vq1);
                  vq3 = vq2\<lparr>copied := copied vq2 @ [buff]\<rparr>;
                  vq4 = virtio_vq_relchain iov_len vq3
              in (True, virtio_vq_endchains vq4))
           else (False, vq1))
      else (False, vq))"

text \<open>
  The part of \<^verbatim>\<open>struct snd_skl_vbe\<close> the notification path uses: the pending list and
  the queue \<^verbatim>\<open>vqs[SKL_VIRTIO_IPC_NOT_RX_VQ]\<close>.
\<close>

record 'm vbe_notif =
  pending_msg_list :: "'m vfe_pending_msg list"
  not_rx_vq :: "'m virtio_vq_info"

text \<open>
  \<^verbatim>\<open>vbe_skl_send_or_enqueue\<close>: a notification that cannot be sent is copied into a
  fresh entry at the tail of the pending list. The result of the allocation is not
  checked, so when it fails (\<open>alloc_ok\<close> is false) the copy writes through a null
  pointer.
\<close>

definition vbe_skl_send_or_enqueue ::
  "bool \<Rightarrow> 'm vbe_notif \<Rightarrow> 'm vfe_pending_msg \<Rightarrow> 'm vbe_notif option" where
  "vbe_skl_send_or_enqueue alloc_ok vbe pen_msg =
     (case vbe_skl_try_send (not_rx_vq vbe) (msg pen_msg) (sizeof_msg pen_msg) of
        (sent, vq') \<Rightarrow>
          if sent = False
          then (if alloc_ok
                then Some (vbe\<lparr>not_rx_vq := vq',
                               pending_msg_list := pending_msg_list vbe @ [pen_msg]\<rparr>)
                else None)
          else Some (vbe\<lparr>not_rx_vq := vq'\<rparr>))"

text \<open>
  \<^verbatim>\<open>vbe_send_kctl_msg\<close>: builds the control notification and hands it to
  \<^verbatim>\<open>vbe_skl_send_or_enqueue\<close>. When it returns, it returns the pair of its return
  value and \<^verbatim>\<open>result->ret\<close>, both always 0. \<^verbatim>\<open>sizeof_kctl_noti\<close> stands for
  \<^verbatim>\<open>sizeof(struct vfe_kctl_noti)\<close>, whose declaration is not in the sources.
\<close>

datatype inbox_msg = Vfe_kctl_noti string "int list"

definition vbe_send_kctl_msg ::
  "bool \<Rightarrow> nat \<Rightarrow> inbox_msg vbe_notif \<Rightarrow> string \<Rightarrow> int list \<Rightarrow>
     ((int \<times> int) \<times> inbox_msg vbe_notif) option" where
  "vbe_send_kctl_msg alloc_ok sizeof_kctl_noti vbe kcontrol_name ucontrol =
     (let kctl_msg = \<lparr>msg = Vfe_kctl_noti kcontrol_name ucontrol, sizeof_msg = sizeof_kctl_noti\<rparr>
      in case vbe_skl_send_or_enqueue alloc_ok vbe kctl_msg of
           None \<Rightarrow> None
         | Some vbe' \<Rightarrow> Some ((0, 0), vbe'))"

text \<open>
  \<^verbatim>\<open>vbe_skl_ipc_fe_not_reply_get\<close>, run on every kick of the notification queue:
  while the pending list is not empty, try to send its first entry; delete it when sent,
  stop at the first entry that cannot be sent.
\<close>

function vbe_skl_ipc_fe_not_reply_get :: "'m vbe_notif \<Rightarrow> 'm vbe_notif" where
  "vbe_skl_ipc_fe_not_reply_get vbe =
     (case pending_msg_list vbe of
        [] \<Rightarrow> vbe
      | entry # rest \<Rightarrow>
          (case vbe_skl_try_send (not_rx_vq vbe) (msg entry) (sizeof_msg entry) of
             (sent, vq') \<Rightarrow>
               if sent = True
               then vbe_skl_ipc_fe_not_reply_get (vbe\<lparr>not_rx_vq := vq', pending_msg_list := rest\<rparr>)
               else vbe\<lparr>not_rx_vq := vq'\<rparr>))"
  by pat_completeness auto
termination
  by (relation "measure (\<lambda>vbe. length (pending_msg_list vbe))") auto

declare vbe_skl_ipc_fe_not_reply_get.simps [simp del]

text \<open>
  A run of the notification path: the backend sends notifications (each with the outcome
  of the allocation it may need) and handles kicks, the peer makes buffers available in
  between, in any interleaving. A run ends with \<^term>\<open>None\<close> when a send faults.
\<close>

datatype 'm notif_op =
    Send "'m vfe_pending_msg" bool
  | Kick
  | Peer_adds "nat list"

fun notif_step :: "'m notif_op \<Rightarrow> 'm vbe_notif \<Rightarrow> 'm vbe_notif option" where
  "notif_step (Send m alloc_ok) vbe = vbe_skl_send_or_enqueue alloc_ok vbe m"
| "notif_step Kick vbe = Some (vbe_skl_ipc_fe_not_reply_get vbe)"
| "notif_step (Peer_adds lens) vbe =
     Some (vbe\<lparr>not_rx_vq := (not_rx_vq vbe)\<lparr>avail := avail (not_rx_vq vbe) @ lens\<rparr>\<rparr>)"

fun notif_run :: "'m notif_op list \<Rightarrow> 'm vbe_notif \<Rightarrow> 'm vbe_notif option" where
  "notif_run [] vbe = Some vbe"
| "notif_run (op # ops) vbe =
     (case notif_step op vbe of None \<Rightarrow> None | Some vbe' \<Rightarrow> notif_run ops vbe')"

text \<open>
  The notifications a run appends to the pending list, in the order of their sends, and
  the notifications its kicks copy into the queue, in the order they are copied.
\<close>

fun enqueued :: "'m notif_op list \<Rightarrow> 'm vbe_notif \<Rightarrow> 'm vfe_pending_msg list" where
  "enqueued [] vbe = []"
| "enqueued (op # ops) vbe =
     (case notif_step op vbe of
        None \<Rightarrow> []
      | Some vbe' \<Rightarrow>
          (case op of
             Send m alloc_ok \<Rightarrow>
               (if fst (vbe_skl_try_send (not_rx_vq vbe) (msg m) (sizeof_msg m)) then [] else [m])
           | _ \<Rightarrow> [])
            @ enqueued ops vbe')"

fun drained :: "'m notif_op list \<Rightarrow> 'm vbe_notif \<Rightarrow> 'm list" where
  "drained [] vbe = []"
| "drained (op # ops) vbe =
     (case notif_step op vbe of
        None \<Rightarrow> []
      | Some vbe' \<Rightarrow>
          (case op of
             Kick \<Rightarrow> drop (length (copied (not_rx_vq vbe))) (copied (not_rx_vq vbe'))
           | _ \<Rightarrow> [])
            @ drained ops vbe')"

text \<open>
  Example inputs: a full queue, control notifications, and a run in which the third
  notification finds a free buffer while the second is still pending.
\<close>

definition ex_full_vbe :: "inbox_msg vbe_notif" where
  "ex_full_vbe = \<lparr>pending_msg_list = [],
     not_rx_vq = \<lparr>avail = [], relchains = [], copied = [], endchains = 0\<rparr>\<rparr>"

definition ex_noti :: "int \<Rightarrow> inbox_msg vfe_pending_msg" where
  "ex_noti n = \<lparr>msg = Vfe_kctl_noti ''Speaker Switch'' [n], sizeof_msg = 64\<rparr>"

definition ex_notif_ops :: "inbox_msg notif_op list" where
  "ex_notif_ops =
     [Send (ex_noti 1) True, Send (ex_noti 2) True, Peer_adds [64], Kick,
      Peer_adds [64], Send (ex_noti 3) True, Peer_adds [64], Kick]"

subsection \<open>Backend: messages\<close>

text \<open>
  Modelled from the spec: the header that declares \<^verbatim>\<open>enum vfe_ipc_msg_type\<close> and
  \<^verbatim>\<open>VFE_MSG_TYPE_MASK\<close> is not among the sources. A command code is a class selector
  (PCM, KCTL or CFG) plus a sub-opcode; \<^verbatim>\<open>cmd & VFE_MSG_TYPE_MASK\<close> is the class.
  Codes the sources do not name are kept with their number.
\<close>

datatype vfe_ipc_msg_type =
    VFE_MSG_PCM_OPEN
  | VFE_MSG_PCM_CLOSE
  | VFE_MSG_PCM_PREPARE
  | VFE_MSG_PCM_HW_PARAMS
  | VFE_MSG_PCM_TRIGGER
  | VFE_MSG_PCM_OTHER nat
  | VFE_MSG_KCTL_SET
  | VFE_MSG_KCTL_OTHER nat
  | VFE_MSG_CFG_HDA
  | VFE_MSG_CFG_RES_INFO
  | VFE_MSG_CFG_RES_DESC
  | VFE_MSG_CFG_DOMAIN
  | VFE_MSG_CFG_OTHER nat
  | VFE_MSG_UNCLASSIFIED nat

datatype vfe_msg_class = VFE_MSG_PCM | VFE_MSG_KCTL | VFE_MSG_CFG | VFE_MSG_NO_CLASS

fun msg_type_mask :: "vfe_ipc_msg_type \<Rightarrow> vfe_msg_class" where
  "msg_type_mask VFE_MSG_PCM_OPEN = VFE_MSG_PCM"
| "msg_type_mask VFE_MSG_PCM_CLOSE = VFE_MSG_PCM"
| "msg_type_mask VFE_MSG_PCM_PREPARE = VFE_MSG_PCM"
| "msg_type_mask VFE_MSG_PCM_HW_PARAMS = VFE_MSG_PCM"
| "msg_type_mask VFE_MSG_PCM_TRIGGER = VFE_MSG_PCM"
| "msg_type_mask (VFE_MSG_PCM_OTHER n) = VFE_MSG_PCM"
| "msg_type_mask VFE_MSG_KCTL_SET = VFE_MSG_KCTL"
| "msg_type_mask (VFE_MSG_KCTL_OTHER n) = VFE_MSG_KCTL"
| "msg_type_mask VFE_MSG_CFG_HDA = VFE_MSG_CFG"
| "msg_type_mask VFE_MSG_CFG_RES_INFO = VFE_MSG_CFG"
| "msg_type_mask VFE_MSG_CFG_RES_DESC = VFE_MSG_CFG"
| "msg_type_mask VFE_MSG_CFG_DOMAIN = VFE_MSG_CFG"
| "msg_type_mask (VFE_MSG_CFG_OTHER n) = VFE_MSG_CFG"
| "msg_type_mask (VFE_MSG_UNCLASSIFIED n) = VFE_MSG_NO_CLASS"

text \<open>
  \<^verbatim>\<open>struct vfe_msg_header\<close>: command, domain id and name, and the PCM descriptor
  (stream id and direction) and the control descriptor (control name) of the descriptor
  union.
\<close>

record vfe_msg_header =
  cmd :: vfe_ipc_msg_type
  domain_id :: u32
  domain_name :: string
  desc_pcm_id :: string
  desc_direction :: int
  desc_kcontrol_id :: string

text \<open>
  \<^verbatim>\<open>struct vfe_pcm_dma_conf\<close>, the payload of Prepare, as far as the backend reads it.
\<close>

record vfe_pcm_dma_conf =
  dma_addr :: u64
  stream_pos_addr :: nat
  stream_pos_size :: nat

text \<open>
  The transmit payload as the handlers read it. The C code casts \<^verbatim>\<open>tx_data\<close> to the
  type the opcode expects without looking at \<^verbatim>\<open>tx_size\<close>; each field below is what
  the buffer holds when read at that type.
\<close>

record tx_view =
  tx_trigger_cmd :: int
  tx_dma_conf :: vfe_pcm_dma_conf
  tx_hw_params :: "int list"

text \<open>
  The receive payload, read and written in place by the handlers: the resource
  description (type, name, size, destination address), the status field \<^verbatim>\<open>ret\<close>,
  the issued domain id and the HDA configuration words.
\<close>

datatype vfe_res_type =
    VFE_TOPOLOGY_RES
  | VFE_FIRMWARE_RES
  | VFE_LIBRARY_RES
  | VFE_OTHER_RES int

record rx_view =
  res_type :: vfe_res_type
  res_name :: string
  res_size :: nat
  res_phys_addr :: nat
  rx_ret :: int
  rx_domain_id :: u32
  rx_hda_cfg :: "nat list"

text \<open>\<^verbatim>\<open>struct vbe_ipc_msg\<close>.\<close>

record vbe_ipc_msg =
  header :: vfe_msg_header
  tx_data :: "tx_view option"
  tx_size :: nat
  rx_data :: "rx_view option"
  rx_size :: nat

subsection \<open>Backend: streams, sessions and the position descriptor\<close>

text \<open>
  Modelled from the spec: \<^verbatim>\<open>struct vfe_stream_pos_desc\<close> is declared in a header that
  is not among the sources. It holds the hardware frame position and the two interrupt
  counters; the counters are unsigned machine integers of an unstated width \<open>'w\<close>.
\<close>

record (overloaded) 'w vfe_stream_pos_desc =
  hw_ptr :: u64
  be_irq_cnt :: "'w word"
  fe_irq_cnt :: "'w word"

text \<open>
  \<^verbatim>\<open>struct snd_pcm_substream\<close> as far as the backend touches it: the use count, whether
  a runtime is allocated, and the addresses of the scatter-gather table of its DMA buffer
  (\<^term>\<open>None\<close> when the substream has no DMA buffer).
\<close>

record snd_pcm_substream =
  ref_count :: int
  runtime :: bool
  sg_table :: "u64 list option"

text \<open>
  An entry of the card's \<^verbatim>\<open>rtd_list\<close> with its PCM: the PCM id, whether a CPU DAI is
  bound, and the substream of each direction (0 is playback, 1 is capture).
\<close>

record snd_soc_pcm_runtime =
  rtd_pcm_id :: string
  cpu_dai :: bool
  playback :: "snd_pcm_substream option"
  capture :: "snd_pcm_substream option"

text \<open>
  \<^verbatim>\<open>pcm->streams[direction].substream\<close>. The array has two entries; any other index
  is out of range and yields no substream.
\<close>

definition pcm_substream :: "snd_soc_pcm_runtime \<Rightarrow> int \<Rightarrow> snd_pcm_substream option" where
  "pcm_substream pcm dir =
     (if dir = 0 then playback pcm else if dir = 1 then capture pcm else None)"

definition set_pcm_substream ::
  "int \<Rightarrow> snd_pcm_substream \<Rightarrow> snd_soc_pcm_runtime \<Rightarrow> snd_soc_pcm_runtime" where
  "set_pcm_substream dir s pcm =
     (if dir = 0 then pcm\<lparr>playback := Some s\<rparr>
      else if dir = 1 then pcm\<lparr>capture := Some s\<rparr> else pcm)"

text \<open>\<^verbatim>\<open>struct vbe_substream_info\<close>: one session of a client.\<close>

record vbe_substream_info =
  info_pcm_id :: string
  info_direction :: int
  info_pos_desc :: "nat option"
  native_dma_addr :: u64

text \<open>
  \<^verbatim>\<open>struct firmware\<close> is its data; \<^verbatim>\<open>fw->size\<close> is the length of the data. A
  client has its sessions and its topology image.
\<close>

type_synonym firmware = "u8 list"

record snd_skl_vbe_client =
  substr_info_list :: "vbe_substream_info list"
  tplg :: "firmware option"

record skl_lib_info =
  lib_name :: string
  lib_fw :: "firmware option"

record skl_tplg_domain =
  tplg_domain_name :: string
  tplg_domain_id :: u32
  tplg_name :: string

text \<open>
  What the backend asks of its collaborators, in the order it asks: the stream
  operations \<^verbatim>\<open>rtd->ops\<close>, stores into a mapped position descriptor, the store
  barrier, the interrupt raised on a queue and the unmapping of a guest region.
\<close>

datatype pcm_op = Op_open | Op_close | Op_prepare | Op_hw_params "int list" | Op_trigger int | Op_pointer

datatype vq_id =
    SKL_VIRTIO_IPC_CMD_TX_VQ
  | SKL_VIRTIO_IPC_CMD_RX_VQ
  | SKL_VIRTIO_IPC_NOT_TX_VQ
  | SKL_VIRTIO_IPC_NOT_RX_VQ

datatype 'c be_event =
    Ops_call pcm_op string int
  | Store_hw_ptr nat u64
  | Store_be_irq_cnt nat 'c
  | Wmb
  | Virtio_vq_interrupt vq_id
  | Unmap_guest_phys nat

text \<open>
  The part of \<^verbatim>\<open>struct snd_skl_vbe\<close>, of the sound card and of the DSP context the
  message handlers use: the clients with their sessions, the card's \<^verbatim>\<open>rtd_list\<close>
  (\<^term>\<open>None\<close> when the device, its component or its card is missing), the position
  descriptors in mapped guest memory by address, the trace of events, the base firmware
  \<^verbatim>\<open>skl_sst->dsp->fw\<close>, the library table with its count, the topology domains, and
  the bytes of guest memory by guest-physical address.
\<close>

record (overloaded) 'w vbe_pcm =
  client_list :: "snd_skl_vbe_client list"
  card :: "snd_soc_pcm_runtime list option"
  pos_mem :: "nat \<Rightarrow> 'w vfe_stream_pos_desc"
  trace :: "'w word be_event list"
  dsp_fw :: "firmware option"
  lib_info :: "skl_lib_info list"
  lib_count :: int
  tplg_domains :: "skl_tplg_domain list"
  guest_mem :: "nat \<Rightarrow> u8"

text \<open>
  The collaborators the sources call but do not define: the result of each stream
  operation, the hardware pointer, the domain id of the copier module that
  \<^verbatim>\<open>skl_tplg_fe_get_cpr_module\<close> finds for a DAI and direction (\<^term>\<open>None\<close> when it
  finds none), whether the two allocations of Open succeed, the guest-to-host address
  translation (0 on failure), whether a guest region (address, length) can be mapped,
  the control handler \<^verbatim>\<open>kctl_ipc_handle\<close>, the words \<^verbatim>\<open>vbe_skl_cfg_hda\<close> reads from
  the device, and \<^verbatim>\<open>request_firmware\<close>. It also carries the sizes of the wire
  structures, whose declarations are not in the sources.
\<close>

record be_env =
  ops_ret :: "pcm_op \<Rightarrow> string \<Rightarrow> int \<Rightarrow> int"
  ops_pointer :: "string \<Rightarrow> int \<Rightarrow> u64"
  cpr_module_domain_id :: "string \<Rightarrow> int \<Rightarrow> u32 option"
  alloc_runtime_ok :: bool
  alloc_substr_info_ok :: bool
  vhm_vm_gpa2hpa :: "u64 \<Rightarrow> u64"
  map_guest_phys :: "nat \<Rightarrow> nat \<Rightarrow> bool"
  kctl_ipc_handle :: "u32 \<Rightarrow> string \<Rightarrow> int"
  hda_cfg_words :: "nat list"
  request_firmware :: "string \<Rightarrow> int \<times> firmware option"
  sizeof_msg_header :: nat
  sizeof_hda_cfg :: nat
  sizeof_resource_info :: nat
  sizeof_resource_desc :: nat
  sizeof_domain_info :: nat

abbreviation PAGE_SIZE :: u64 where "PAGE_SIZE \<equiv> 4096"

fun vbe_find_substream_info_by_pcm ::
  "snd_skl_vbe_client \<Rightarrow> string \<Rightarrow> int \<Rightarrow> vbe_substream_info option" where
  "vbe_find_substream_info_by_pcm client pcm_id direction =
     find (\<lambda>info. info_direction info = direction \<and> info_pcm_id info = pcm_id)
       (substr_info_list client)"

fun vbe_find_substream_info_clients ::
  "snd_skl_vbe_client list \<Rightarrow> string \<times> int \<Rightarrow> vbe_substream_info option" where
  "vbe_find_substream_info_clients [] substr = None"
| "vbe_find_substream_info_clients (client # clients) substr =
     (case vbe_find_substream_info_by_pcm client (fst substr) (snd substr) of
        Some info \<Rightarrow> Some info
      | None \<Rightarrow> vbe_find_substream_info_clients clients substr)"

text \<open>
  \<^verbatim>\<open>vbe_find_substream_info\<close>; a substream is given by the id of its PCM and its
  direction, which are all the lookup reads of it.
\<close>

definition vbe_find_substream_info ::
  "'w vbe_pcm \<Rightarrow> string \<times> int \<Rightarrow> vbe_substream_info option" where
  "vbe_find_substream_info vbe substr = vbe_find_substream_info_clients (client_list vbe) substr"

definition log_event :: "'w word be_event \<Rightarrow> 'w vbe_pcm \<Rightarrow> 'w vbe_pcm" where
  "log_event e vbe = vbe\<lparr>trace := trace vbe @ [e]\<rparr>"

definition store_hw_ptr :: "nat \<Rightarrow> u64 \<Rightarrow> ('w::len) vbe_pcm \<Rightarrow> 'w vbe_pcm" where
  "store_hw_ptr p v vbe =
     log_event (Store_hw_ptr p v) (vbe\<lparr>pos_mem := (pos_mem vbe)(p := (pos_mem vbe p)\<lparr>hw_ptr := v\<rparr>)\<rparr>)"

definition store_be_irq_cnt :: "nat \<Rightarrow> 'w word \<Rightarrow> ('w::len) vbe_pcm \<Rightarrow> 'w vbe_pcm" where
  "store_be_irq_cnt p v vbe =
     log_event (Store_be_irq_cnt p v)
       (vbe\<lparr>pos_mem := (pos_mem vbe)(p := (pos_mem vbe p)\<lparr>be_irq_cnt := v\<rparr>)\<rparr>)"

text \<open>
  \<^verbatim>\<open>skl_notify_stream_update\<close>, called on every stream interrupt. Without a session or
  without a mapped descriptor it returns at once. Otherwise it reads the hardware
  pointer, stores it, increments the backend counter, issues the store barrier and
  raises the interrupt on the command receive queue.
\<close>

definition skl_notify_stream_update ::
  "be_env \<Rightarrow> ('w::len) vbe_pcm \<Rightarrow> string \<times> int \<Rightarrow> 'w vbe_pcm" where
  "skl_notify_stream_update env vbe substream =
     (case vbe_find_substream_info vbe substream of
        None \<Rightarrow> vbe
      | Some substr_info \<Rightarrow>
          (case info_pos_desc substr_info of
             None \<Rightarrow> vbe
           | Some p \<Rightarrow>
               (let vbe1 = log_event (Ops_call Op_pointer (fst substream) (snd substream)) vbe;
                    vbe2 = store_hw_ptr p (ops_pointer env (fst substream) (snd substream)) vbe1;
                    vbe3 = store_be_irq_cnt p (be_irq_cnt (pos_mem vbe2 p) + 1) vbe2;
                    vbe4 = log_event Wmb vbe3
                in log_event (Virtio_vq_interrupt SKL_VIRTIO_IPC_CMD_RX_VQ) vbe4)))"

text \<open>A sequence of backend updates, each with the pointer the hardware reports then.\<close>

fun notify_run :: "(be_env \<times> (string \<times> int)) list \<Rightarrow> ('w::len) vbe_pcm \<Rightarrow> 'w vbe_pcm" where
  "notify_run [] vbe = vbe"
| "notify_run ((env, substream) # us) vbe = notify_run us (skl_notify_stream_update env vbe substream)"

text \<open>
  What a reader of the shared memory can see while a trace is executed: the memory
  after each event, in program order.
\<close>

fun apply_event :: "('w::len) word be_event \<Rightarrow> (nat \<Rightarrow> 'w vfe_stream_pos_desc) \<Rightarrow> (nat \<Rightarrow> 'w vfe_stream_pos_desc)" where
  "apply_event (Store_hw_ptr p v) m = m(p := (m p)\<lparr>hw_ptr := v\<rparr>)"
| "apply_event (Store_be_irq_cnt p v) m = m(p := (m p)\<lparr>be_irq_cnt := v\<rparr>)"
| "apply_event e m = m"

fun observable ::
  "('w::len) word be_event list \<Rightarrow> (nat \<Rightarrow> 'w vfe_stream_pos_desc) \<Rightarrow> (nat \<Rightarrow> 'w vfe_stream_pos_desc) list" where
  "observable [] m = []"
| "observable (e # es) m = apply_event e m # observable es (apply_event e m)"

text \<open>
  The descriptor a stream's updates go to, and the number of updates of a sequence that
  go to the descriptor at address \<open>p\<close>.
\<close>

definition update_target :: "'w vbe_pcm \<Rightarrow> string \<times> int \<Rightarrow> nat option" where
  "update_target vbe substream =
     (case vbe_find_substream_info vbe substream of
        None \<Rightarrow> None
      | Some substr_info \<Rightarrow> info_pos_desc substr_info)"

definition updates_of ::
  "'w vbe_pcm \<Rightarrow> nat \<Rightarrow> (be_env \<times> (string \<times> int)) list \<Rightarrow> nat" where
  "updates_of vbe p us = length (filter (\<lambda>u. update_target vbe (snd u) = Some p) us)"

text \<open>Example inputs: a stream with a session and a mapped descriptor.\<close>

definition ex_be_env :: be_env where
  "ex_be_env = \<lparr>ops_ret = (\<lambda>_ _ _. 0), ops_pointer = (\<lambda>_ _. 480),
     cpr_module_domain_id = (\<lambda>_ _. Some 1), alloc_runtime_ok = True,
     alloc_substr_info_ok = True, vhm_vm_gpa2hpa = (\<lambda>a. a), map_guest_phys = (\<lambda>_ _. True),
     kctl_ipc_handle = (\<lambda>_ _. 0), hda_cfg_words = [], request_firmware = (\<lambda>_. (0, Some [])),
     sizeof_msg_header = 108, sizeof_hda_cfg = 40, sizeof_resource_info = 76,
     sizeof_resource_desc = 88, sizeof_domain_info = 8\<rparr>"

definition ex_session :: vbe_substream_info where
  "ex_session = \<lparr>info_pcm_id = ''Speaker'', info_direction = 0,
     info_pos_desc = Some 4096, native_dma_addr = 0\<rparr>"

definition ex_rtd :: "int \<Rightarrow> snd_soc_pcm_runtime" where
  "ex_rtd n = \<lparr>rtd_pcm_id = ''Speaker'', cpu_dai = True,
     playback = Some \<lparr>ref_count = n, runtime = True, sg_table = Some [8192, 12288]\<rparr>,
     capture = None\<rparr>"

definition ex_vbe :: "32 word \<Rightarrow> 32 vbe_pcm" where
  "ex_vbe c = \<lparr>client_list = [\<lparr>substr_info_list = [ex_session], tplg = None\<rparr>],
     card = Some [ex_rtd 1],
     pos_mem = (\<lambda>_. \<lparr>hw_ptr = 0, be_irq_cnt = c, fe_irq_cnt = c\<rparr>),
     trace = [],
     dsp_fw = Some [1, 2, 3],
     lib_info = [],
     lib_count = 0,
     tplg_domains = [],
     guest_mem = (\<lambda>_. 0)\<rparr>"

subsection \<open>Backend: the PCM handlers\<close>

text \<open>
  A handler returns its return value, the receive payload as it leaves it, and the new
  state. The result is \<^term>\<open>None\<close> where the C code dereferences a null or out-of-range
  pointer.
\<close>

type_synonym 'w handled = "(int \<times> rx_view option \<times> 'w vbe_pcm) option"

definition vbe_skl_is_valid_pcm_id :: "string \<Rightarrow> int" where
  "vbe_skl_is_valid_pcm_id pcm_id =
     (if length pcm_id = 0 \<or> pcm_id = ''((null))'' then - EINVAL else 0)"

definition vbe_skl_find_rtd_by_pcm_id :: "'w vbe_pcm \<Rightarrow> string \<Rightarrow> snd_soc_pcm_runtime option" where
  "vbe_skl_find_rtd_by_pcm_id vbe pcm_name =
     (if vbe_skl_is_valid_pcm_id pcm_name < 0 then None
      else (case card vbe of
              None \<Rightarrow> None
            | Some rtds \<Rightarrow> find (\<lambda>rtd. rtd_pcm_id rtd = pcm_name) rtds))"

definition vbe_skl_find_pcm_by_name :: "'w vbe_pcm \<Rightarrow> string \<Rightarrow> snd_soc_pcm_runtime option" where
  "vbe_skl_find_pcm_by_name vbe pcm_name =
     (if length pcm_name = 0 then None else vbe_skl_find_rtd_by_pcm_id vbe pcm_name)"

text \<open>
  \<^verbatim>\<open>vbe_skl_pcm_get_domain_id\<close>: the error, or the domain id written through the
  pointer.
\<close>

definition vbe_skl_pcm_get_domain_id ::
  "be_env \<Rightarrow> 'w vbe_pcm \<Rightarrow> string \<Rightarrow> int \<Rightarrow> int + u32" where
  "vbe_skl_pcm_get_domain_id env vbe pcm_id direction =
     (case vbe_skl_find_rtd_by_pcm_id vbe pcm_id of
        None \<Rightarrow> Inl (- ENODEV)
      | Some rtd \<Rightarrow>
          (case (if cpu_dai rtd then cpr_module_domain_id env pcm_id direction else None) of
             Some d \<Rightarrow> Inr d
           | None \<Rightarrow> Inl (- EINVAL)))"

definition vbe_skl_pcm_check_permission ::
  "be_env \<Rightarrow> 'w vbe_pcm \<Rightarrow> u32 \<Rightarrow> string \<Rightarrow> int \<Rightarrow> int" where
  "vbe_skl_pcm_check_permission env vbe dom_id pcm_id direction =
     (case vbe_skl_pcm_get_domain_id env vbe pcm_id direction of
        Inl ret \<Rightarrow> ret
      | Inr pcm_domain_id \<Rightarrow> if dom_id \<noteq> pcm_domain_id then - EACCES else 0)"

text \<open>
  A session holds a pointer to its substream. In the model the substream is that of the
  first entry of \<^verbatim>\<open>rtd_list\<close> with the PCM id, which is how Open found it.
\<close>

fun map_first :: "('a \<Rightarrow> bool) \<Rightarrow> ('a \<Rightarrow> 'a) \<Rightarrow> 'a list \<Rightarrow> 'a list" where
  "map_first P f [] = []"
| "map_first P f (x # xs) = (if P x then f x # xs else x # map_first P f xs)"

definition get_substream :: "'w vbe_pcm \<Rightarrow> string \<Rightarrow> int \<Rightarrow> snd_pcm_substream option" where
  "get_substream vbe pcm_id direction =
     (case card vbe of
        None \<Rightarrow> None
      | Some rtds \<Rightarrow>
          (case find (\<lambda>rtd. rtd_pcm_id rtd = pcm_id) rtds of
             None \<Rightarrow> None
           | Some rtd \<Rightarrow> pcm_substream rtd direction))"

definition put_substream ::
  "string \<Rightarrow> int \<Rightarrow> snd_pcm_substream \<Rightarrow> 'w vbe_pcm \<Rightarrow> 'w vbe_pcm" where
  "put_substream pcm_id direction s vbe =
     vbe\<lparr>card := map_option
            (map_first (\<lambda>rtd. rtd_pcm_id rtd = pcm_id) (set_pcm_substream direction s))
            (card vbe)\<rparr>"

definition set_ret :: "int \<Rightarrow> rx_view option \<Rightarrow> rx_view option" where
  "set_ret ret rx = map_option (\<lambda>r. r\<lparr>rx_ret := ret\<rparr>) rx"

text \<open>
  \<^verbatim>\<open>vbe_skl_allocate_runtime\<close>: a fresh runtime for the substream, or
  \<^verbatim>\<open>-ENOMEM\<close>. The fields of the runtime are not part of the model.
\<close>

definition vbe_skl_allocate_runtime :: "be_env \<Rightarrow> snd_pcm_substream \<Rightarrow> int \<times> snd_pcm_substream" where
  "vbe_skl_allocate_runtime env substream =
     (if \<not> alloc_runtime_ok env then (- ENOMEM, substream)
      else (0, substream\<lparr>runtime := True\<rparr>))"

text \<open>
  \<^verbatim>\<open>vbe_skl_add_substream_info\<close>: the new session, zero-initialised, is added at the
  head of the list of the first client.
\<close>

definition vbe_skl_add_substream_info ::
  "be_env \<Rightarrow> 'w vbe_pcm \<Rightarrow> string \<Rightarrow> int \<Rightarrow> int \<times> 'w vbe_pcm" where
  "vbe_skl_add_substream_info env vbe pcm_id direction =
     (case client_list vbe of
        [] \<Rightarrow> (- EINVAL, vbe)
      | client # clients \<Rightarrow>
          if \<not> alloc_substr_info_ok env then (- ENOMEM, vbe)
          else
            (let substr_info = \<lparr>info_pcm_id = pcm_id, info_direction = direction,
                                info_pos_desc = None, native_dma_addr = 0\<rparr>
             in (0, vbe\<lparr>client_list :=
                      client\<lparr>substr_info_list := substr_info # substr_info_list client\<rparr>
                        # clients\<rparr>)))"

definition vbe_skl_pcm_open :: "be_env \<Rightarrow> ('w::len) vbe_pcm \<Rightarrow> vbe_ipc_msg \<Rightarrow> 'w handled" where
  "vbe_skl_pcm_open env vbe m =
     (let pcm_id = desc_pcm_id (header m);
          direction = desc_direction (header m)
      in case vbe_skl_find_pcm_by_name vbe pcm_id of
           None \<Rightarrow> Some (- ENODEV, set_ret (- ENODEV) (rx_data m), vbe)
         | Some pcm \<Rightarrow>
             (let ret = vbe_skl_pcm_check_permission env vbe (domain_id (header m)) pcm_id direction
              in if ret < 0 then Some (ret, set_ret ret (rx_data m), vbe)
                 else
                   (case pcm_substream pcm direction of
                      None \<Rightarrow> None
                    | Some substream \<Rightarrow>
                        if ref_count substream > 0
                        then Some (- EBUSY, set_ret (- EBUSY) (rx_data m), vbe)
                        else
                          (case vbe_skl_allocate_runtime env substream of
                             (ret1, substream1) \<Rightarrow>
                               (let vbe1 = put_substream pcm_id direction substream1 vbe
                                in if ret1 < 0 then Some (ret1, set_ret ret1 (rx_data m), vbe1)
                                   else
                                     (case vbe_skl_add_substream_info env vbe1 pcm_id direction of
                                        (ret2, vbe2) \<Rightarrow>
                                          if ret2 < 0
                                          then Some (ret2, set_ret ret2 (rx_data m), vbe2)
                                          else
                                            (let vbe3 = put_substream pcm_id direction
                                                   (substream1\<lparr>ref_count := ref_count substream1 + 1\<rparr>) vbe2;
                                                 ret3 = ops_ret env Op_open pcm_id direction;
                                                 vbe4 = log_event (Ops_call Op_open pcm_id direction) vbe3
                                             in Some (ret3, set_ret ret3 (rx_data m), vbe4))))))))"

text \<open>
  The addresses written into the scatter-gather table: the first entry, then one page
  after another from the page of the first entry.
\<close>

definition dma_pages :: "u64 \<Rightarrow> nat \<Rightarrow> u64 list" where
  "dma_pages first n = first # map (\<lambda>k. (first AND NOT 4095) + PAGE_SIZE * of_nat k) [1..<n]"

definition replace_info ::
  "vbe_substream_info \<Rightarrow> vbe_substream_info \<Rightarrow> 'w vbe_pcm \<Rightarrow> 'w vbe_pcm" where
  "replace_info old new vbe =
     (case client_list vbe of
        [] \<Rightarrow> vbe
      | client # clients \<Rightarrow>
          vbe\<lparr>client_list :=
                client\<lparr>substr_info_list := map_first (\<lambda>i. i = old) (\<lambda>_. new) (substr_info_list client)\<rparr>
                  # clients\<rparr>)"

definition delete_info :: "vbe_substream_info \<Rightarrow> 'w vbe_pcm \<Rightarrow> 'w vbe_pcm" where
  "delete_info old vbe =
     (case client_list vbe of
        [] \<Rightarrow> vbe
      | client # clients \<Rightarrow>
          vbe\<lparr>client_list :=
                client\<lparr>substr_info_list := remove1 old (substr_info_list client)\<rparr> # clients\<rparr>)"

text \<open>
  \<^verbatim>\<open>vbe_skl_prepare_dma\<close>: the return value, the session and the substream as it leaves
  them. An empty table makes \<^verbatim>\<open>table[0]\<close> an out-of-range access.
\<close>

definition vbe_skl_prepare_dma ::
  "be_env \<Rightarrow> vbe_substream_info \<Rightarrow> snd_pcm_substream \<Rightarrow> vfe_pcm_dma_conf \<Rightarrow>
     (int \<times> vbe_substream_info \<times> snd_pcm_substream) option" where
  "vbe_skl_prepare_dma env substr_info substream dma_conf =
     (let pcm_buffer_hpa = vhm_vm_gpa2hpa env (dma_addr dma_conf)
      in if pcm_buffer_hpa = 0 then Some (- EINVAL, substr_info, substream)
         else
           (case sg_table substream of
              None \<Rightarrow> Some (- EINVAL, substr_info, substream)
            | Some [] \<Rightarrow> None
            | Some (a # as) \<Rightarrow>
                (let info1 = substr_info\<lparr>native_dma_addr := a\<rparr>;
                     substream1 = substream\<lparr>sg_table := Some (dma_pages pcm_buffer_hpa (length (a # as)))\<rparr>
                 in if map_guest_phys env (stream_pos_addr dma_conf) (stream_pos_size dma_conf)
                    then Some (0, info1\<lparr>info_pos_desc := Some (stream_pos_addr dma_conf)\<rparr>, substream1)
                    else Some (- EINVAL, info1\<lparr>info_pos_desc := None\<rparr>, substream1))))"

definition vbe_skl_pcm_prepare ::
  "be_env \<Rightarrow> ('w::len) vbe_pcm \<Rightarrow> vbe_substream_info \<Rightarrow> vbe_ipc_msg \<Rightarrow> 'w handled" where
  "vbe_skl_pcm_prepare env vbe substr_info m =
     (case (tx_data m, get_substream vbe (info_pcm_id substr_info) (info_direction substr_info)) of
        (Some tx, Some substream) \<Rightarrow>
          (case vbe_skl_prepare_dma env substr_info substream (tx_dma_conf tx) of
             None \<Rightarrow> None
           | Some (ret, info1, substream1) \<Rightarrow>
               (let vbe1 = replace_info substr_info info1
                      (put_substream (info_pcm_id substr_info) (info_direction substr_info) substream1 vbe)
                in if ret < 0 then Some (ret, rx_data m, vbe1)
                   else
                     (let ret1 = ops_ret env Op_prepare (info_pcm_id substr_info) (info_direction substr_info);
                          vbe2 = log_event (Ops_call Op_prepare (info_pcm_id substr_info)
                                   (info_direction substr_info)) vbe1
                      in Some (ret1, set_ret ret1 (rx_data m), vbe2))))
      | _ \<Rightarrow> None)"

definition vbe_skl_pcm_close ::
  "be_env \<Rightarrow> ('w::len) vbe_pcm \<Rightarrow> vbe_substream_info \<Rightarrow> vbe_ipc_msg \<Rightarrow> 'w handled" where
  "vbe_skl_pcm_close env vbe substr_info m =
     (case get_substream vbe (info_pcm_id substr_info) (info_direction substr_info) of
        None \<Rightarrow> None
      | Some substream \<Rightarrow>
          (case sg_table substream of
             Some [] \<Rightarrow> None
           | tbl \<Rightarrow>
               (let substream1 =
                      (case tbl of
                         None \<Rightarrow> substream
                       | Some t \<Rightarrow> substream\<lparr>sg_table :=
                                     Some (dma_pages (native_dma_addr substr_info) (length t))\<rparr>);
                    vbe1 = (case info_pos_desc substr_info of
                              None \<Rightarrow> vbe
                            | Some p \<Rightarrow> log_event (Unmap_guest_phys p) vbe);
                    vbe2 = delete_info substr_info vbe1;
                    vbe3 = put_substream (info_pcm_id substr_info) (info_direction substr_info)
                             (substream1\<lparr>ref_count := 0\<rparr>) vbe2;
                    ret = ops_ret env Op_close (info_pcm_id substr_info) (info_direction substr_info);
                    vbe4 = log_event (Ops_call Op_close (info_pcm_id substr_info)
                             (info_direction substr_info)) vbe3
                in Some (ret, set_ret ret (rx_data m), vbe4))))"

text \<open>
  \<^verbatim>\<open>vbe_skl_pcm_hw_params\<close>: the parameters are read from \<^verbatim>\<open>tx_data\<close> as they come
  (the source has a TODO for the size check), written into the runtime, which must
  exist, and passed to the stream operation. The fields of the runtime are not part of
  the model.
\<close>

definition vbe_skl_pcm_hw_params ::
  "be_env \<Rightarrow> ('w::len) vbe_pcm \<Rightarrow> vbe_substream_info \<Rightarrow> vbe_ipc_msg \<Rightarrow> 'w handled" where
  "vbe_skl_pcm_hw_params env vbe substr_info m =
     (case (tx_data m, get_substream vbe (info_pcm_id substr_info) (info_direction substr_info)) of
        (Some tx, Some substream) \<Rightarrow>
          if \<not> runtime substream then None
          else
            (let op = Op_hw_params (tx_hw_params tx);
                 ret = ops_ret env op (info_pcm_id substr_info) (info_direction substr_info);
                 vbe1 = log_event (Ops_call op (info_pcm_id substr_info) (info_direction substr_info)) vbe
             in Some (ret, set_ret ret (rx_data m), vbe1))
      | _ \<Rightarrow> None)"

definition vbe_skl_pcm_trigger ::
  "be_env \<Rightarrow> ('w::len) vbe_pcm \<Rightarrow> vbe_substream_info \<Rightarrow> vbe_ipc_msg \<Rightarrow> 'w handled" where
  "vbe_skl_pcm_trigger env vbe substr_info m =
     (case (tx_data m, get_substream vbe (info_pcm_id substr_info) (info_direction substr_info)) of
        (Some tx, Some substream) \<Rightarrow>
          (let op = Op_trigger (tx_trigger_cmd tx);
               ret = ops_ret env op (info_pcm_id substr_info) (info_direction substr_info);
               vbe1 = log_event (Ops_call op (info_pcm_id substr_info) (info_direction substr_info)) vbe
           in Some (ret, rx_data m, vbe1))
      | _ \<Rightarrow> None)"

text \<open>
  \<^verbatim>\<open>vbe_skl_msg_pcm_handle\<close>: without a client \<^verbatim>\<open>-EINVAL\<close>; Open goes to
  \<^verbatim>\<open>vbe_skl_pcm_open\<close>; every other command needs a session of the first client for
  the stream id and direction of the header, else \<^verbatim>\<open>-ENODEV\<close>.
\<close>

definition vbe_skl_msg_pcm_handle :: "be_env \<Rightarrow> ('w::len) vbe_pcm \<Rightarrow> vbe_ipc_msg \<Rightarrow> 'w handled" where
  "vbe_skl_msg_pcm_handle env vbe m =
     (case client_list vbe of
        [] \<Rightarrow> Some (- EINVAL, rx_data m, vbe)
      | client # clients \<Rightarrow>
          if cmd (header m) = VFE_MSG_PCM_OPEN then vbe_skl_pcm_open env vbe m
          else
            (case vbe_find_substream_info_by_pcm client
                    (desc_pcm_id (header m)) (desc_direction (header m)) of
               None \<Rightarrow> Some (- ENODEV, rx_data m, vbe)
             | Some substream_info \<Rightarrow>
                 (case cmd (header m) of
                    VFE_MSG_PCM_CLOSE \<Rightarrow> vbe_skl_pcm_close env vbe substream_info m
                  | VFE_MSG_PCM_PREPARE \<Rightarrow> vbe_skl_pcm_prepare env vbe substream_info m
                  | VFE_MSG_PCM_HW_PARAMS \<Rightarrow> vbe_skl_pcm_hw_params env vbe substream_info m
                  | VFE_MSG_PCM_TRIGGER \<Rightarrow> vbe_skl_pcm_trigger env vbe substream_info m
                  | _ \<Rightarrow> Some (0, rx_data m, vbe))))"

text \<open>
  The sessions of the first client by stream id and direction: the registry the PCM
  handler consults.
\<close>

definition session_keys :: "'w vbe_pcm \<Rightarrow> (string \<times> int) list" where
  "session_keys vbe =
     (case client_list vbe of
        [] \<Rightarrow> []
      | client # clients \<Rightarrow> map (\<lambda>i. (info_pcm_id i, info_direction i)) (substr_info_list client))"

text \<open>
  Example inputs: the card has one PCM, ``Speaker'', owned by domain 1; in
  \<open>ex_vbe\<close> its playback stream is open, in \<open>ex_vbe_closed\<close> it is not. A PCM message
  for that stream carries a command and the domain id of its sender.
\<close>

definition ex_vbe_closed :: "32 vbe_pcm" where
  "ex_vbe_closed = (ex_vbe 0)\<lparr>client_list := [\<lparr>substr_info_list = [], tplg = None\<rparr>],
     card := Some [ex_rtd 0]\<rparr>"

definition ex_rx :: rx_view where
  "ex_rx = \<lparr>res_type = VFE_FIRMWARE_RES, res_name = '''', res_size = 0, res_phys_addr = 0,
     rx_ret = - EIO, rx_domain_id = 0, rx_hda_cfg = []\<rparr>"

definition ex_tx :: tx_view where
  "ex_tx = \<lparr>tx_trigger_cmd = 1,
     tx_dma_conf = \<lparr>dma_addr = 1048576, stream_pos_addr = 4096, stream_pos_size = 16\<rparr>,
     tx_hw_params = [2, 48000]\<rparr>"

definition ex_pcm_msg :: "vfe_ipc_msg_type \<Rightarrow> u32 \<Rightarrow> vbe_ipc_msg" where
  "ex_pcm_msg c d =
     \<lparr>header = \<lparr>cmd = c, domain_id = d, domain_name = ''GuestOS'', desc_pcm_id = ''Speaker'',
                 desc_direction = 0, desc_kcontrol_id = ''''\<rparr>,
      tx_data = Some ex_tx, tx_size = 4, rx_data = Some ex_rx, rx_size = 4\<rparr>"

text \<open>
  A run of the PCM handler over a sequence of messages: the return values in order and
  the final state; \<^term>\<open>None\<close> when a message makes the C code fault.
\<close>

fun pcm_run ::
  "be_env \<Rightarrow> ('w::len) vbe_pcm \<Rightarrow> vbe_ipc_msg list \<Rightarrow> (int list \<times> 'w vbe_pcm) option" where
  "pcm_run env vbe [] = Some ([], vbe)"
| "pcm_run env vbe (m # ms) =
     (case vbe_skl_msg_pcm_handle env vbe m of
        None \<Rightarrow> None
      | Some (ret, rx, vbe') \<Rightarrow>
          (case pcm_run env vbe' ms of
             None \<Rightarrow> None
           | Some (rets, vbe'') \<Rightarrow> Some (ret # rets, vbe'')))"

text \<open>The open stream of \<open>ex_vbe\<close> after a Close.\<close>

definition ex_vbe_after_close :: "32 vbe_pcm" where
  "ex_vbe_after_close = (ex_vbe 0)
     \<lparr>client_list := [\<lparr>substr_info_list = [], tplg = None\<rparr>],
      card := Some [\<lparr>rtd_pcm_id = ''Speaker'', cpu_dai = True,
                     playback = Some \<lparr>ref_count = 0, runtime = True, sg_table = Some [0, 4096]\<rparr>,
                     capture = None\<rparr>],
      trace := [Unmap_guest_phys 4096, Ops_call Op_close ''Speaker'' 0]\<rparr>"

subsection \<open>Backend: the configuration handlers and the router\<close>

text \<open>
  \<^verbatim>\<open>vbe_find_lib_fw\<close>: library indices run from 1 below \<^verbatim>\<open>lib_count\<close>; index 0 is the
  base firmware.
\<close>

definition vbe_find_lib_fw :: "'w vbe_pcm \<Rightarrow> string \<Rightarrow> firmware option" where
  "vbe_find_lib_fw vbe name =
     (case find (\<lambda>l. lib_name l = name) (drop 1 (take (nat (lib_count vbe)) (lib_info vbe))) of
        None \<Rightarrow> None
      | Some l \<Rightarrow> lib_fw l)"

text \<open>
  \<^verbatim>\<open>vbe_find_res_hndl\<close>: the resource, or \<^term>\<open>Some None\<close> when there is none. For a
  topology the C code reads \<^verbatim>\<open>client->tplg\<close> of the first client without a null
  check.
\<close>

definition vbe_find_res_hndl ::
  "'w vbe_pcm \<Rightarrow> vfe_res_type \<Rightarrow> string \<Rightarrow> firmware option option" where
  "vbe_find_res_hndl vbe type name =
     (case type of
        VFE_TOPOLOGY_RES \<Rightarrow>
          (case client_list vbe of [] \<Rightarrow> None | client # clients \<Rightarrow> Some (tplg client))
      | VFE_FIRMWARE_RES \<Rightarrow> Some (dsp_fw vbe)
      | VFE_LIBRARY_RES \<Rightarrow> Some (vbe_find_lib_fw vbe name)
      | VFE_OTHER_RES n \<Rightarrow> Some None)"

definition vbe_skl_cfg_resource_info ::
  "be_env \<Rightarrow> ('w::len) vbe_pcm \<Rightarrow> vbe_ipc_msg \<Rightarrow> 'w handled" where
  "vbe_skl_cfg_resource_info env vbe m =
     (case rx_data m of
        None \<Rightarrow> Some (- EINVAL, rx_data m, vbe)
      | Some res_info \<Rightarrow>
          if rx_size m \<noteq> sizeof_resource_info env then Some (- EINVAL, rx_data m, vbe)
          else
            (let res_info1 = res_info\<lparr>res_size := 0\<rparr>
             in case vbe_find_res_hndl vbe (res_type res_info1) (res_name res_info1) of
                  None \<Rightarrow> None
                | Some None \<Rightarrow> Some (- EBADF, Some res_info1, vbe)
                | Some (Some fw) \<Rightarrow> Some (0, Some (res_info1\<lparr>res_size := length fw\<rparr>), vbe)))"

text \<open>\<^verbatim>\<open>memcpy\<close> into guest memory, byte by byte from the destination address.\<close>

fun memcpy_guest :: "nat \<Rightarrow> u8 list \<Rightarrow> (nat \<Rightarrow> u8) \<Rightarrow> (nat \<Rightarrow> u8)" where
  "memcpy_guest dst [] mem = mem"
| "memcpy_guest dst (b # bs) mem = memcpy_guest (Suc dst) bs (mem(dst := b))"

text \<open>
  \<^verbatim>\<open>vbe_skl_cfg_resource_desc\<close>: the result of \<^verbatim>\<open>map_guest_phys\<close> is not checked, so
  a region that cannot be mapped makes \<^verbatim>\<open>memcpy\<close> write through a null pointer.
\<close>

definition vbe_skl_cfg_resource_desc ::
  "be_env \<Rightarrow> ('w::len) vbe_pcm \<Rightarrow> vbe_ipc_msg \<Rightarrow> 'w handled" where
  "vbe_skl_cfg_resource_desc env vbe m =
     (case rx_data m of
        None \<Rightarrow> Some (- EINVAL, rx_data m, vbe)
      | Some res_desc \<Rightarrow>
          if rx_size m \<noteq> sizeof_resource_desc env then Some (- EINVAL, rx_data m, vbe)
          else
            (case vbe_find_res_hndl vbe (res_type res_desc) (res_name res_desc) of
               None \<Rightarrow> None
             | Some None \<Rightarrow> Some (- EBADF, Some (res_desc\<lparr>rx_ret := - EBADF\<rparr>), vbe)
             | Some (Some fw) \<Rightarrow>
                 if length fw \<noteq> res_size res_desc
                 then Some (- EINVAL, Some (res_desc\<lparr>rx_ret := - EINVAL\<rparr>), vbe)
                 else if \<not> map_guest_phys env (res_phys_addr res_desc) (res_size res_desc)
                 then None
                 else
                   (let vbe1 = vbe\<lparr>guest_mem :=
                                memcpy_guest (res_phys_addr res_desc)
                                  (take (res_size res_desc) fw) (guest_mem vbe)\<rparr>;
                        vbe2 = log_event (Unmap_guest_phys (res_phys_addr res_desc)) vbe1
                    in Some (0, Some (res_desc\<lparr>rx_ret := 0\<rparr>), vbe2))))"

definition vbe_skl_cfg_hda :: "be_env \<Rightarrow> ('w::len) vbe_pcm \<Rightarrow> vbe_ipc_msg \<Rightarrow> 'w handled" where
  "vbe_skl_cfg_hda env vbe m =
     (case rx_data m of
        None \<Rightarrow> Some (- EINVAL, rx_data m, vbe)
      | Some hda_cfg \<Rightarrow>
          if rx_size m \<noteq> sizeof_hda_cfg env then Some (- EINVAL, rx_data m, vbe)
          else Some (0, Some (hda_cfg\<lparr>rx_hda_cfg := hda_cfg_words env\<rparr>), vbe))"

definition vbe_skl_find_tplg_domain_by_name :: "'w vbe_pcm \<Rightarrow> string \<Rightarrow> skl_tplg_domain option" where
  "vbe_skl_find_tplg_domain_by_name vbe name =
     find (\<lambda>d. tplg_domain_name d = name) (tplg_domains vbe)"

definition vbe_skl_cfg_domain :: "be_env \<Rightarrow> ('w::len) vbe_pcm \<Rightarrow> vbe_ipc_msg \<Rightarrow> 'w handled" where
  "vbe_skl_cfg_domain env vbe m =
     (case rx_data m of
        None \<Rightarrow> Some (- EINVAL, rx_data m, vbe)
      | Some domain_info \<Rightarrow>
          if rx_size m \<noteq> sizeof_domain_info env then Some (- EINVAL, rx_data m, vbe)
          else
            (case client_list vbe of
               [] \<Rightarrow> Some (- EINVAL, Some (domain_info\<lparr>rx_ret := - EINVAL\<rparr>), vbe)
             | client # clients \<Rightarrow>
                 (case vbe_skl_find_tplg_domain_by_name vbe (domain_name (header m)) of
                    None \<Rightarrow> Some (- EACCES, Some (domain_info\<lparr>rx_ret := - EACCES\<rparr>), vbe)
                  | Some tplg_domain \<Rightarrow>
                      (case request_firmware env (tplg_name tplg_domain) of
                         (ret, fw) \<Rightarrow>
                           Some (ret,
                                 Some (domain_info\<lparr>rx_domain_id := tplg_domain_id tplg_domain,
                                                    rx_ret := ret\<rparr>),
                                 vbe\<lparr>client_list := client\<lparr>tplg := fw\<rparr> # clients\<rparr>)))))"

definition vbe_skl_msg_cfg_handle :: "be_env \<Rightarrow> ('w::len) vbe_pcm \<Rightarrow> vbe_ipc_msg \<Rightarrow> 'w handled" where
  "vbe_skl_msg_cfg_handle env vbe m =
     (case cmd (header m) of
        VFE_MSG_CFG_HDA \<Rightarrow> vbe_skl_cfg_hda env vbe m
      | VFE_MSG_CFG_RES_INFO \<Rightarrow> vbe_skl_cfg_resource_info env vbe m
      | VFE_MSG_CFG_RES_DESC \<Rightarrow> vbe_skl_cfg_resource_desc env vbe m
      | VFE_MSG_CFG_DOMAIN \<Rightarrow> vbe_skl_cfg_domain env vbe m
      | _ \<Rightarrow> Some (0, rx_data m, vbe))"

definition vbe_skl_msg_kcontrol_handle ::
  "be_env \<Rightarrow> ('w::len) vbe_pcm \<Rightarrow> vbe_ipc_msg \<Rightarrow> 'w handled" where
  "vbe_skl_msg_kcontrol_handle env vbe m =
     (case cmd (header m) of
        VFE_MSG_KCTL_SET \<Rightarrow>
          Some (kctl_ipc_handle env (domain_id (header m)) (desc_kcontrol_id (header m)),
                rx_data m, vbe)
      | _ \<Rightarrow> Some (0, rx_data m, vbe))"

text \<open>
  \<^verbatim>\<open>vbe_skl_not_fwd\<close>: the router. A header of the wrong length aborts the message;
  otherwise the class of the command selects the handler.
\<close>

definition vbe_skl_not_fwd :: "be_env \<Rightarrow> ('w::len) vbe_pcm \<Rightarrow> nat \<Rightarrow> vbe_ipc_msg \<Rightarrow> 'w handled" where
  "vbe_skl_not_fwd env vbe header_len m =
     (if sizeof_msg_header env \<noteq> header_len then Some (- EINVAL, rx_data m, vbe)
      else (case msg_type_mask (cmd (header m)) of
              VFE_MSG_PCM \<Rightarrow> vbe_skl_msg_pcm_handle env vbe m
            | VFE_MSG_KCTL \<Rightarrow> vbe_skl_msg_kcontrol_handle env vbe m
            | VFE_MSG_CFG \<Rightarrow> vbe_skl_msg_cfg_handle env vbe m
            | VFE_MSG_NO_CLASS \<Rightarrow> Some (0, rx_data m, vbe)))"

text \<open>
  Example inputs: the Info and Descriptor requests for the base firmware of \<open>ex_vbe\<close>,
  three bytes long, with the destination at guest address 256.
\<close>

definition ex_res_msg :: "vfe_ipc_msg_type \<Rightarrow> nat \<Rightarrow> nat \<Rightarrow> vbe_ipc_msg" where
  "ex_res_msg c sz rxsz =
     \<lparr>header = \<lparr>cmd = c, domain_id = 1, domain_name = ''GuestOS'', desc_pcm_id = '''',
                 desc_direction = 0, desc_kcontrol_id = ''''\<rparr>,
      tx_data = None, tx_size = 0,
      rx_data = Some (ex_rx\<lparr>res_size := sz, res_phys_addr := 256\<rparr>), rx_size = rxsz\<rparr>"

subsection \<open>Frontend: position updates\<close>

text \<open>
  \<^verbatim>\<open>struct vfe_substream_info\<close>: the PCM id and direction of the substream, the
  \<^verbatim>\<open>open\<close> and \<^verbatim>\<open>running\<close> flags, the position descriptor the frontend allocated
  for it, whether the mutex of the substream's group is held
  (\<^verbatim>\<open>mutex_is_locked\<close>), whether its update work is queued, and the ALSA state of the
  substream, which the model keeps abstract.
\<close>

record (overloaded) ('w, 'rt) vfe_substream_info =
  fe_pcm_id :: string
  fe_direction :: int
  fe_open :: bool
  fe_running :: bool
  fe_pos_desc :: "'w vfe_stream_pos_desc option"
  fe_mutex_locked :: bool
  fe_update_work_queued :: bool
  fe_substream :: 'rt

datatype fe_event =
    Rmb
  | Warn_missed_interrupts int string
  | Period_elapsed string int
  | Warn_period_elapsed_failed
  | Warn_update_work_in_progress string

text \<open>
  \<^verbatim>\<open>int irq_diff = pos_desc->be_irq_cnt - pos_desc->fe_irq_cnt\<close>. Counters narrower
  than \<^verbatim>\<open>int\<close> are promoted and subtracted as integers; otherwise the difference wraps
  at the width of the counters and is then converted to a 32-bit \<^verbatim>\<open>int\<close>.
\<close>

definition irq_diff :: "('w::len) word \<Rightarrow> 'w word \<Rightarrow> int" where
  "irq_diff be fe =
     (if LENGTH('w) < 32 then uint be - uint fe
      else sint (ucast (be - fe) :: 32 word))"

text \<open>
  The body of the loop of \<^verbatim>\<open>vfe_cmd_handle_rx\<close> for one stream. The procedure
  \<^verbatim>\<open>vfe_pcm_period_elapsed\<close> is the parameter \<open>period_elapsed\<close>: from the descriptor
  and the ALSA state of the substream it gives its return value and the new ALSA state.
  The body returns the stream and the events it caused.
\<close>

definition vfe_cmd_handle_rx_body ::
  "('w vfe_stream_pos_desc \<Rightarrow> 'rt \<Rightarrow> int \<times> 'rt) \<Rightarrow> (('w::len), 'rt) vfe_substream_info \<Rightarrow>
     ('w, 'rt) vfe_substream_info \<times> fe_event list" where
  "vfe_cmd_handle_rx_body period_elapsed substr_info =
     (case fe_pos_desc substr_info of
        None \<Rightarrow> (substr_info, [])
      | Some pos_desc \<Rightarrow>
          if \<not> fe_open substr_info \<or> \<not> fe_running substr_info \<or>
             be_irq_cnt pos_desc = fe_irq_cnt pos_desc \<or> fe_mutex_locked substr_info
          then (substr_info, [])
          else
            (let d = irq_diff (be_irq_cnt pos_desc) (fe_irq_cnt pos_desc);
                 ev1 = (if d > 1 then [Warn_missed_interrupts d (fe_pcm_id substr_info)] else []);
                 pos_desc1 = pos_desc\<lparr>fe_irq_cnt := be_irq_cnt pos_desc\<rparr>;
                 ev2 = [Period_elapsed (fe_pcm_id substr_info) (fe_direction substr_info)]
             in case period_elapsed pos_desc1 (fe_substream substr_info) of
                  (ret, rt1) \<Rightarrow>
                    (let info1 = substr_info\<lparr>fe_pos_desc := Some pos_desc1, fe_substream := rt1\<rparr>
                     in if ret < 0
                        then (info1\<lparr>fe_update_work_queued := True\<rparr>,
                              ev1 @ ev2 @ [Warn_period_elapsed_failed] @
                                (if fe_update_work_queued info1
                                 then [Warn_update_work_in_progress (fe_pcm_id substr_info)]
                                 else []))
                        else (info1, ev1 @ ev2))))"

fun vfe_cmd_handle_rx_loop ::
  "('w vfe_stream_pos_desc \<Rightarrow> 'rt \<Rightarrow> int \<times> 'rt) \<Rightarrow> (('w::len), 'rt) vfe_substream_info list \<Rightarrow>
     ('w, 'rt) vfe_substream_info list \<times> fe_event list" where
  "vfe_cmd_handle_rx_loop period_elapsed [] = ([], [])"
| "vfe_cmd_handle_rx_loop period_elapsed (substr_info # rest) =
     (case vfe_cmd_handle_rx_body period_elapsed substr_info of
        (info1, ev) \<Rightarrow>
          (case vfe_cmd_handle_rx_loop period_elapsed rest of
             (rest1, evs) \<Rightarrow> (info1 # rest1, ev @ evs)))"

text \<open>
  \<^verbatim>\<open>vfe_cmd_handle_rx\<close>, the callback of the wake signal: a load barrier, then the loop
  over the streams. It returns nothing; the result is the streams and the events.
\<close>

definition vfe_cmd_handle_rx ::
  "('w vfe_stream_pos_desc \<Rightarrow> 'rt \<Rightarrow> int \<times> 'rt) \<Rightarrow> (('w::len), 'rt) vfe_substream_info list \<Rightarrow>
     ('w, 'rt) vfe_substream_info list \<times> fe_event list" where
  "vfe_cmd_handle_rx period_elapsed infos =
     (case vfe_cmd_handle_rx_loop period_elapsed infos of
        (infos1, evs) \<Rightarrow> (infos1, Rmb # evs))"

text \<open>The streams the wake signal acts on.\<close>

definition rx_pending :: "(('w::len), 'rt) vfe_substream_info \<Rightarrow> bool" where
  "rx_pending substr_info =
     (case fe_pos_desc substr_info of
        None \<Rightarrow> False
      | Some pos_desc \<Rightarrow>
          fe_open substr_info \<and> fe_running substr_info \<and> \<not> fe_mutex_locked substr_info \<and>
          be_irq_cnt pos_desc \<noteq> fe_irq_cnt pos_desc)"

text \<open>
  Example inputs: three running streams, one with a gap of 3, one locked, one with equal
  counters; the period-elapsed procedure counts its calls and succeeds.
\<close>

definition ex_fe_info :: "string \<Rightarrow> 32 word \<Rightarrow> 32 word \<Rightarrow> bool \<Rightarrow> (32, nat) vfe_substream_info" where
  "ex_fe_info name be fe locked =
     \<lparr>fe_pcm_id = name, fe_direction = 0, fe_open = True, fe_running = True,
      fe_pos_desc = Some \<lparr>hw_ptr = 960, be_irq_cnt = be, fe_irq_cnt = fe\<rparr>,
      fe_mutex_locked = locked, fe_update_work_queued = False, fe_substream = 0\<rparr>"

definition ex_period_elapsed :: "32 vfe_stream_pos_desc \<Rightarrow> nat \<Rightarrow> int \<times> nat" where
  "ex_period_elapsed d n = (0, Suc n)"

subsection \<open>Frontend: requests, replies and timeouts\<close>

text \<open>
  Modelled from the spec: \<^verbatim>\<open>enum vfe_ipc_msg_status\<close> is declared in a header that is
  not among the sources. A request is pending from its (zeroed) allocation until its
  wait times out.
\<close>

datatype vfe_ipc_msg_status = VFE_MSG_PENDING | VFE_MSG_TIMED_OUT

text \<open>
  \<^verbatim>\<open>struct vfe_ipc_msg\<close>, an in-flight request: the header, the copies of the
  payloads, the address of the caller's reply buffer, the addresses of the caller's
  wait queue and completion flag, and the status.
\<close>

record vfe_ipc_msg =
  ipc_header :: vfe_msg_header
  ipc_tx_buf :: "tx_view option"
  ipc_rx_buf :: "rx_view option"
  ipc_rx_data :: "nat option"
  ipc_waitq :: "nat option"
  ipc_completed :: "nat option"
  ipc_status :: vfe_ipc_msg_status

text \<open>
  Modelled from the spec: the virtqueue primitives of the guest kernel are not among the
  sources. A queue holds the requests added and not yet completed by the peer, and the
  requests the peer has completed, which \<^verbatim>\<open>virtqueue_get_buf\<close> returns oldest first.
\<close>

record fe_virtqueue =
  vq_outstanding :: "vfe_ipc_msg list"
  vq_used :: "vfe_ipc_msg list"

datatype fe_work = Tx_message_loop_work | Msg_timeout_work

datatype fe_msg_event =
    Add_outbuf vfe_msg_header
  | Virtqueue_kick
  | Wake_up nat
  | Schedule_work fe_work
  | Err_response_timed_out
  | Info_timed_out_not_handled vfe_ipc_msg_type

text \<open>The PCMs of the frontend's card: the id and which substreams exist.\<close>

record fe_pcm =
  fe_card_pcm_id :: string
  fe_has_playback :: bool
  fe_has_capture :: bool

text \<open>
  \<^verbatim>\<open>struct snd_skl_vfe\<close> with the memory its requests point into: the streams, the
  notification transmit queue (\<^term>\<open>None\<close> when the pointer is null), the expired list,
  the card, the reply buffers and completion flags of callers by address, and the trace
  of events.
\<close>

record (overloaded) ('w, 'rt) snd_skl_vfe =
  vfe_substr_info_list :: "('w, 'rt) vfe_substream_info list"
  ipc_not_tx_vq :: "fe_virtqueue option"
  expired_msg_list :: "vfe_ipc_msg list"
  fe_card :: "fe_pcm list"
  caller_rx :: "nat \<Rightarrow> rx_view"
  caller_completed :: "nat \<Rightarrow> bool"
  vfe_trace :: "fe_msg_event list"

text \<open>
  What the frontend's environment decides: the module parameters \<^verbatim>\<open>domain_name\<close> and
  \<^verbatim>\<open>domain_id\<close>, the timeouts (constants of the absent header), whether allocations
  succeed, the return value of \<^verbatim>\<open>virtqueue_add_outbuf\<close>, the reply of the peer to a
  request if it arrives before the wait ends, the results of the local platform calls,
  the addresses of the callback's reply buffer and of the wait queue and completion flag
  of the send, the contents of an uninitialised transmit structure, and the DMA
  configuration of a substream.
\<close>

record fe_env =
  fe_domain_name :: string
  fe_domain_id :: u32
  msec_timeout :: int
  trigger_timeout :: int
  kzalloc_ok :: bool
  add_outbuf_ret :: int
  peer_reply :: "vfe_msg_header \<Rightarrow> rx_view option"
  skl_platform_open_ret :: int
  skl_platform_pcm_trigger_ret :: int
  result_addr :: nat
  wait_addr :: nat
  uninit_tx :: tx_view
  substream_dma_conf :: vfe_pcm_dma_conf

fun append_event :: "fe_msg_event \<Rightarrow> ('w, 'rt) snd_skl_vfe \<Rightarrow> ('w, 'rt) snd_skl_vfe" where
  "append_event e vfe = vfe\<lparr>vfe_trace := vfe_trace vfe @ [e]\<rparr>"

text \<open>
  The body of the loop of \<^verbatim>\<open>vfe_tx_message_loop\<close> for one completed request, and the
  loop over the requests \<^verbatim>\<open>virtqueue_get_buf\<close> returns.
\<close>

definition vfe_tx_message_body ::
  "vfe_ipc_msg \<Rightarrow> ('w, 'rt) snd_skl_vfe \<Rightarrow> ('w, 'rt) snd_skl_vfe" where
  "vfe_tx_message_body m vfe =
     (if ipc_status m = VFE_MSG_TIMED_OUT
      then append_event (Schedule_work Msg_timeout_work)
             (vfe\<lparr>expired_msg_list := expired_msg_list vfe @ [m]\<rparr>)
      else
        (let vfe1 = (case (ipc_rx_buf m, ipc_rx_data m) of
                       (Some buf, Some a) \<Rightarrow> vfe\<lparr>caller_rx := (caller_rx vfe)(a := buf)\<rparr>
                     | _ \<Rightarrow> vfe)
         in case (ipc_waitq m, ipc_completed m) of
              (Some w, Some c) \<Rightarrow>
                append_event (Wake_up w)
                  (vfe1\<lparr>caller_completed := (caller_completed vfe1)(c := True)\<rparr>)
            | _ \<Rightarrow> vfe1))"

fun vfe_tx_message_drain ::
  "vfe_ipc_msg list \<Rightarrow> ('w, 'rt) snd_skl_vfe \<Rightarrow> ('w, 'rt) snd_skl_vfe" where
  "vfe_tx_message_drain [] vfe = vfe"
| "vfe_tx_message_drain (m # ms) vfe = vfe_tx_message_drain ms (vfe_tx_message_body m vfe)"

definition vfe_tx_message_loop :: "('w, 'rt) snd_skl_vfe \<Rightarrow> ('w, 'rt) snd_skl_vfe option" where
  "vfe_tx_message_loop vfe =
     (case ipc_not_tx_vq vfe of
        None \<Rightarrow> None
      | Some vq \<Rightarrow>
          Some (vfe_tx_message_drain (vq_used vq) (vfe\<lparr>ipc_not_tx_vq := Some (vq\<lparr>vq_used := []\<rparr>)\<rparr>)))"



text \<open>
  The peer completes the newest outstanding request with a reply: the request moves to
  the completed ones with the reply in its receive buffer.
\<close>

definition peer_completes_last :: "rx_view \<Rightarrow> fe_virtqueue \<Rightarrow> fe_virtqueue" where
  "peer_completes_last r vq =
     (case rev (vq_outstanding vq) of
        [] \<Rightarrow> vq
      | m # ms \<Rightarrow>
          vq\<lparr>vq_outstanding := rev ms,
             vq_used := vq_used vq @ [m\<lparr>ipc_rx_buf := map_option (\<lambda>_. r) (ipc_rx_buf m)\<rparr>]\<rparr>)"

definition time_out_last :: "fe_virtqueue \<Rightarrow> fe_virtqueue" where
  "time_out_last vq =
     (case rev (vq_outstanding vq) of
        [] \<Rightarrow> vq
      | m # ms \<Rightarrow> vq\<lparr>vq_outstanding := rev ms @ [m\<lparr>ipc_status := VFE_MSG_TIMED_OUT\<rparr>]\<rparr>)"

text \<open>
  \<^verbatim>\<open>vfe_send_msg_with_timeout\<close> with \<^verbatim>\<open>vfe_send_virtio_msg\<close> and
  \<^verbatim>\<open>vfe_wait_for_msg_response\<close>. The result is the return value and the new state,
  or \<^term>\<open>None\<close> when the call never returns: a wait without timeout for a reply that
  does not come. When the reply comes in time, the transmit loop has run on it before
  the wait ends. When it does not, the request stays with the queue, marked timed out.
\<close>

definition vfe_send_msg_with_timeout ::
  "fe_env \<Rightarrow> ('w, 'rt) snd_skl_vfe \<Rightarrow> vfe_msg_header \<Rightarrow> tx_view option \<Rightarrow> nat option \<Rightarrow> int \<Rightarrow>
     (int \<times> ('w, 'rt) snd_skl_vfe) option" where
  "vfe_send_msg_with_timeout env vfe msg_header tx rx timeout =
     (if \<not> kzalloc_ok env then Some (- ENOMEM, vfe)
      else
        (let hdr = msg_header\<lparr>domain_name := take 31 (fe_domain_name env),
                              domain_id := fe_domain_id env\<rparr>;
             m = \<lparr>ipc_header = hdr, ipc_tx_buf = tx,
                  ipc_rx_buf = map_option (caller_rx vfe) rx, ipc_rx_data = rx,
                  ipc_waitq = map_option (\<lambda>_. wait_addr env) rx,
                  ipc_completed = map_option (\<lambda>_. wait_addr env) rx,
                  ipc_status = VFE_MSG_PENDING\<rparr>;
             vfe0 = (case rx of
                       None \<Rightarrow> vfe
                     | Some a \<Rightarrow> vfe\<lparr>caller_completed := (caller_completed vfe)(wait_addr env := False)\<rparr>)
         in case ipc_not_tx_vq vfe0 of
              None \<Rightarrow> Some (- EINVAL, vfe0)
            | Some vq \<Rightarrow>
                if add_outbuf_ret env < 0 then Some (add_outbuf_ret env, vfe0)
                else
                  (let vq1 = vq\<lparr>vq_outstanding := vq_outstanding vq @ [m]\<rparr>;
                       vfe1 = append_event Virtqueue_kick
                                (append_event (Add_outbuf hdr) (vfe0\<lparr>ipc_not_tx_vq := Some vq1\<rparr>))
                   in case rx of
                        None \<Rightarrow> Some (0, vfe1)
                      | Some a \<Rightarrow>
                          (case peer_reply env hdr of
                             Some r \<Rightarrow>
                               (case vfe_tx_message_loop
                                       (vfe1\<lparr>ipc_not_tx_vq := Some (peer_completes_last r vq1)\<rparr>) of
                                  None \<Rightarrow> None
                                | Some vfe2 \<Rightarrow> Some (0, vfe2))
                           | None \<Rightarrow>
                               if timeout = 0 then None
                               else Some (- ETIMEDOUT,
                                          append_event Err_response_timed_out
                                            (vfe1\<lparr>ipc_not_tx_vq := Some (time_out_last vq1)\<rparr>))))))"

definition vfe_send_msg ::
  "fe_env \<Rightarrow> ('w, 'rt) snd_skl_vfe \<Rightarrow> vfe_msg_header \<Rightarrow> tx_view option \<Rightarrow> nat option \<Rightarrow>
     (int \<times> ('w, 'rt) snd_skl_vfe) option" where
  "vfe_send_msg env vfe msg_header tx rx =
     vfe_send_msg_with_timeout env vfe msg_header tx rx (msec_timeout env)"

subsection \<open>Frontend: the PCM callbacks\<close>

definition vfe_is_valid_pcm_id :: "string \<Rightarrow> int" where
  "vfe_is_valid_pcm_id pcm_id =
     (if length pcm_id = 0 \<or> pcm_id = ''((null))'' then - EINVAL else 0)"

text \<open>
  A substream is given by the id of its PCM and its direction, which is all the
  callbacks read of it besides what the environment supplies.
\<close>

definition vfe_is_valid_fe_substream :: "string \<times> int \<Rightarrow> int" where
  "vfe_is_valid_fe_substream substream = vfe_is_valid_pcm_id (fst substream)"

definition vfe_find_substream_info ::
  "('w, 'rt) snd_skl_vfe \<Rightarrow> string \<times> int \<Rightarrow> ('w, 'rt) vfe_substream_info option" where
  "vfe_find_substream_info vfe substr =
     find (\<lambda>info. fe_direction info = snd substr \<and> fe_pcm_id info = fst substr)
       (vfe_substr_info_list vfe)"

text \<open>An assignment through the pointer \<^verbatim>\<open>vfe_find_substream_info\<close> returned.\<close>

definition update_substream_info ::
  "string \<times> int \<Rightarrow> (('w, 'rt) vfe_substream_info \<Rightarrow> ('w, 'rt) vfe_substream_info) \<Rightarrow>
     ('w, 'rt) snd_skl_vfe \<Rightarrow> ('w, 'rt) snd_skl_vfe" where
  "update_substream_info substr f vfe =
     vfe\<lparr>vfe_substr_info_list :=
           map_first (\<lambda>info. fe_direction info = snd substr \<and> fe_pcm_id info = fst substr) f
             (vfe_substr_info_list vfe)\<rparr>"

text \<open>
  \<^verbatim>\<open>vfe_fill_pcm_msg_header\<close>. The header is a local of the callback; the fields the
  function does not set are given as empty, and the domain fields are set by the send.
\<close>

definition vfe_fill_pcm_msg_header :: "vfe_ipc_msg_type \<Rightarrow> string \<times> int \<Rightarrow> vfe_msg_header" where
  "vfe_fill_pcm_msg_header msg_type substream =
     \<lparr>cmd = msg_type, domain_id = 0, domain_name = [], desc_pcm_id = fst substream,
      desc_direction = snd substream, desc_kcontrol_id = []\<rparr>"

definition vfe_pcm_open ::
  "fe_env \<Rightarrow> ('w, 'rt) snd_skl_vfe \<Rightarrow> string \<times> int \<Rightarrow> (int \<times> ('w, 'rt) snd_skl_vfe) option" where
  "vfe_pcm_open env vfe substream =
     (if skl_platform_open_ret env < 0 then Some (skl_platform_open_ret env, vfe)
      else if vfe_is_valid_fe_substream substream \<noteq> 0 then Some (0, vfe)
      else
        (let vfe0 = vfe\<lparr>caller_rx := (caller_rx vfe)
                      (result_addr env := (caller_rx vfe (result_addr env))\<lparr>rx_ret := - EIO\<rparr>)\<rparr>
         in case vfe_send_msg env vfe0 (vfe_fill_pcm_msg_header VFE_MSG_PCM_OPEN substream)
                   (Some (uninit_tx env)) (Some (result_addr env)) of
              None \<Rightarrow> None
            | Some (ret, vfe1) \<Rightarrow>
                if ret < 0 then Some (ret, vfe1)
                else
                  (let vbe_result = rx_ret (caller_rx vfe1 (result_addr env))
                   in if vbe_result < 0 then Some (vbe_result, vfe1)
                      else Some (vbe_result,
                                 update_substream_info substream (\<lambda>i. i\<lparr>fe_open := True\<rparr>) vfe1))))"

definition vfe_pcm_close ::
  "fe_env \<Rightarrow> ('w, 'rt) snd_skl_vfe \<Rightarrow> string \<times> int \<Rightarrow> (int \<times> ('w, 'rt) snd_skl_vfe) option" where
  "vfe_pcm_close env vfe substream =
     (if vfe_is_valid_fe_substream substream \<noteq> 0 then Some (0, vfe)
      else
        (let vfe0 = update_substream_info substream (\<lambda>i. i\<lparr>fe_open := False\<rparr>) vfe
         in case vfe_send_msg env vfe0 (vfe_fill_pcm_msg_header VFE_MSG_PCM_CLOSE substream)
                   (Some (uninit_tx env)) (Some (result_addr env)) of
              None \<Rightarrow> None
            | Some (ret, vfe1) \<Rightarrow>
                if ret < 0 then Some (ret, vfe1)
                else Some (rx_ret (caller_rx vfe1 (result_addr env)), vfe1)))"

definition vfe_pcm_hw_params ::
  "fe_env \<Rightarrow> ('w, 'rt) snd_skl_vfe \<Rightarrow> string \<times> int \<Rightarrow> int list \<Rightarrow>
     (int \<times> ('w, 'rt) snd_skl_vfe) option" where
  "vfe_pcm_hw_params env vfe substream params =
     (if vfe_is_valid_fe_substream substream \<noteq> 0 then Some (0, vfe)
      else
        (case vfe_send_msg env vfe (vfe_fill_pcm_msg_header VFE_MSG_PCM_HW_PARAMS substream)
                (Some ((uninit_tx env)\<lparr>tx_hw_params := params\<rparr>)) (Some (result_addr env)) of
           None \<Rightarrow> None
         | Some (ret, vfe1) \<Rightarrow>
             if ret < 0 then Some (ret, vfe1)
             else Some (rx_ret (caller_rx vfe1 (result_addr env)), vfe1)))"

text \<open>
  \<^verbatim>\<open>vfe_is_stream_running\<close>, with the ALSA trigger commands START (1),
  PAUSE_RELEASE (4) and RESUME (6).
\<close>

definition vfe_is_stream_running :: "int \<Rightarrow> bool" where
  "vfe_is_stream_running c = (c = 1 \<or> c = 4 \<or> c = 6)"

definition vfe_pcm_trigger ::
  "fe_env \<Rightarrow> ('w, 'rt) snd_skl_vfe \<Rightarrow> string \<times> int \<Rightarrow> int \<Rightarrow>
     (int \<times> ('w, 'rt) snd_skl_vfe) option" where
  "vfe_pcm_trigger env vfe substream c =
     (if skl_platform_pcm_trigger_ret env < 0 then Some (skl_platform_pcm_trigger_ret env, vfe)
      else if vfe_is_valid_fe_substream substream \<noteq> 0 then Some (0, vfe)
      else
        (let vfe0 = update_substream_info substream
                      (\<lambda>i. i\<lparr>fe_running := vfe_is_stream_running c\<rparr>) vfe
         in vfe_send_msg_with_timeout env vfe0
              (vfe_fill_pcm_msg_header VFE_MSG_PCM_TRIGGER substream)
              (Some ((uninit_tx env)\<lparr>tx_trigger_cmd := c\<rparr>)) (Some (result_addr env))
              (trigger_timeout env)))"

text \<open>
  \<^verbatim>\<open>vfe_pcm_prepare\<close>: the counters and the pointer of the descriptor are reset
  before the request is sent; a stream without descriptor makes that a null access.
\<close>

definition vfe_pcm_prepare ::
  "fe_env \<Rightarrow> (('w::len), 'rt) snd_skl_vfe \<Rightarrow> string \<times> int \<Rightarrow> (int \<times> ('w, 'rt) snd_skl_vfe) option" where
  "vfe_pcm_prepare env vfe substream =
     (if vfe_is_valid_fe_substream substream \<noteq> 0 then Some (0, vfe)
      else
        (case vfe_find_substream_info vfe substream of
           None \<Rightarrow> Some (- EINVAL, vfe)
         | Some substr_info \<Rightarrow>
             (case fe_pos_desc substr_info of
                None \<Rightarrow> None
              | Some d \<Rightarrow>
                  (let vfe0 = update_substream_info substream
                                (\<lambda>i. i\<lparr>fe_pos_desc :=
                                         Some \<lparr>hw_ptr = 0, be_irq_cnt = 0, fe_irq_cnt = 0\<rparr>\<rparr>) vfe
                   in case vfe_send_msg env vfe0
                             (vfe_fill_pcm_msg_header VFE_MSG_PCM_PREPARE substream)
                             (Some ((uninit_tx env)\<lparr>tx_dma_conf := substream_dma_conf env\<rparr>))
                             (Some (result_addr env)) of
                        None \<Rightarrow> None
                      | Some (ret, vfe1) \<Rightarrow>
                          if ret < 0 then Some (ret, vfe1)
                          else Some (rx_ret (caller_rx vfe1 (result_addr env)), vfe1)))))"

subsection \<open>Frontend: compensation for timed-out requests\<close>













text \<open>
  Example inputs: a frontend with one PCM, ``Speaker'', and an empty queue; a peer that
  answers nothing but Close; the Open request after its wait timed out; a completed
  request with the reply 0 of the peer.
\<close>

definition ex_fe_env :: fe_env where
  "ex_fe_env =
     \<lparr>fe_domain_name = ''GuestOS'', fe_domain_id = 1, msec_timeout = 500, trigger_timeout = 500,
      kzalloc_ok = True, add_outbuf_ret = 0,
      peer_reply = (\<lambda>h. if cmd h = VFE_MSG_PCM_CLOSE then Some (ex_rx\<lparr>rx_ret := 0\<rparr>) else None),
      skl_platform_open_ret = 0, skl_platform_pcm_trigger_ret = 0,
      result_addr = 100, wait_addr = 200, uninit_tx = ex_tx,
      substream_dma_conf = tx_dma_conf ex_tx\<rparr>"

definition ex_vfe :: "(32, nat) snd_skl_vfe" where
  "ex_vfe =
     \<lparr>vfe_substr_info_list =
        [(ex_fe_info ''Speaker'' 0 0 False)\<lparr>fe_open := False, fe_running := False\<rparr>],
      ipc_not_tx_vq = Some \<lparr>vq_outstanding = [], vq_used = []\<rparr>,
      expired_msg_list = [],
      fe_card = [\<lparr>fe_card_pcm_id = ''Speaker'', fe_has_playback = True, fe_has_capture = False\<rparr>],
      caller_rx = (\<lambda>_. ex_rx\<lparr>rx_ret := 0\<rparr>),
      caller_completed = (\<lambda>_. True),
      vfe_trace = []\<rparr>"








section \<open>Properties\<close>

subsection \<open>The pending queue\<close>

lemma try_send_fst: "fst (vbe_skl_try_send vq b s) = (avail vq \<noteq> [])"
  by (cases "avail vq")
     (simp_all add: vbe_skl_try_send_def virtio_vq_has_descs_def virtio_vq_getchain_def Let_def)

lemma try_send_full: "avail vq = [] \<Longrightarrow> vbe_skl_try_send vq b s = (False, vq)"
  by (simp add: vbe_skl_try_send_def virtio_vq_has_descs_def)

lemma try_send_avail: "avail (snd (vbe_skl_try_send vq b s)) = tl (avail vq)"
  by (cases "avail vq")
     (simp_all add: vbe_skl_try_send_def virtio_vq_has_descs_def virtio_vq_getchain_def Let_def
        virtio_vq_relchain_def virtio_vq_endchains_def)

lemma try_send_copied:
  "copied (snd (vbe_skl_try_send vq b s)) = copied vq @ (if avail vq = [] then [] else [b])"
  by (cases "avail vq")
     (simp_all add: vbe_skl_try_send_def virtio_vq_has_descs_def virtio_vq_getchain_def Let_def
        virtio_vq_relchain_def virtio_vq_endchains_def)

text \<open>A kick sends as many pending notifications as the queue has buffers, oldest first.\<close>

lemma drain_pending:
  "pending_msg_list (vbe_skl_ipc_fe_not_reply_get vbe) =
     drop (length (avail (not_rx_vq vbe))) (pending_msg_list vbe)"
proof (induction vbe rule: vbe_skl_ipc_fe_not_reply_get.induct)
  case (1 vbe)
  show ?case
  proof (cases "pending_msg_list vbe")
    case Nil
    then show ?thesis by (subst vbe_skl_ipc_fe_not_reply_get.simps) simp
  next
    case (Cons entry rest)
    obtain sent vq' where
      ts: "vbe_skl_try_send (not_rx_vq vbe) (msg entry) (sizeof_msg entry) = (sent, vq')"
      by (cases "vbe_skl_try_send (not_rx_vq vbe) (msg entry) (sizeof_msg entry)")
    have s: "sent = (avail (not_rx_vq vbe) \<noteq> [])"
      using try_send_fst[of "not_rx_vq vbe" "msg entry" "sizeof_msg entry"] ts by simp
    have a: "avail vq' = tl (avail (not_rx_vq vbe))"
      using try_send_avail[of "not_rx_vq vbe" "msg entry" "sizeof_msg entry"] ts by simp
    show ?thesis
    proof (cases sent)
      case True
      with 1[OF Cons ts[symmetric]]
      have "pending_msg_list (vbe_skl_ipc_fe_not_reply_get
              (vbe\<lparr>not_rx_vq := vq', pending_msg_list := rest\<rparr>)) = drop (length (avail vq')) rest"
        by simp
      moreover from True s a have "Suc (length (avail vq')) = length (avail (not_rx_vq vbe))"
        by (cases "avail (not_rx_vq vbe)") auto
      ultimately show ?thesis using Cons ts True
        by (subst vbe_skl_ipc_fe_not_reply_get.simps) (simp, metis drop_Suc_Cons)
    next
      case False
      then show ?thesis using Cons ts s
        by (subst vbe_skl_ipc_fe_not_reply_get.simps) simp
    qed
  qed
qed

lemma drain_copied:
  "copied (not_rx_vq (vbe_skl_ipc_fe_not_reply_get vbe)) =
     copied (not_rx_vq vbe) @
       map msg (take (length (avail (not_rx_vq vbe))) (pending_msg_list vbe))"
proof (induction vbe rule: vbe_skl_ipc_fe_not_reply_get.induct)
  case (1 vbe)
  show ?case
  proof (cases "pending_msg_list vbe")
    case Nil
    then show ?thesis by (subst vbe_skl_ipc_fe_not_reply_get.simps) simp
  next
    case (Cons entry rest)
    obtain sent vq' where
      ts: "vbe_skl_try_send (not_rx_vq vbe) (msg entry) (sizeof_msg entry) = (sent, vq')"
      by (cases "vbe_skl_try_send (not_rx_vq vbe) (msg entry) (sizeof_msg entry)")
    have s: "sent = (avail (not_rx_vq vbe) \<noteq> [])"
      using try_send_fst[of "not_rx_vq vbe" "msg entry" "sizeof_msg entry"] ts by simp
    have a: "avail vq' = tl (avail (not_rx_vq vbe))"
      using try_send_avail[of "not_rx_vq vbe" "msg entry" "sizeof_msg entry"] ts by simp
    have c: "copied vq' =
        copied (not_rx_vq vbe) @ (if avail (not_rx_vq vbe) = [] then [] else [msg entry])"
      using try_send_copied[of "not_rx_vq vbe" "msg entry" "sizeof_msg entry"] ts by simp
    show ?thesis
    proof (cases sent)
      case True
      with 1[OF Cons ts[symmetric]]
      have ih: "copied (not_rx_vq (vbe_skl_ipc_fe_not_reply_get
                  (vbe\<lparr>not_rx_vq := vq', pending_msg_list := rest\<rparr>))) =
                copied vq' @ map msg (take (length (avail vq')) rest)"
        by simp
      from True s a obtain l where l: "avail (not_rx_vq vbe) = l # avail vq'"
        by (cases "avail (not_rx_vq vbe)") auto
      show ?thesis using Cons ts True ih c l
        by (subst vbe_skl_ipc_fe_not_reply_get.simps) simp
    next
      case False
      then show ?thesis using Cons ts s c
        by (subst vbe_skl_ipc_fe_not_reply_get.simps) simp
    qed
  qed
qed

lemma send_pending:
  "vbe_skl_send_or_enqueue alloc_ok vbe m = Some vbe' \<Longrightarrow>
     pending_msg_list vbe' =
       pending_msg_list vbe @
         (if fst (vbe_skl_try_send (not_rx_vq vbe) (msg m) (sizeof_msg m)) then [] else [m])"
  by (cases "vbe_skl_try_send (not_rx_vq vbe) (msg m) (sizeof_msg m)")
     (auto simp: vbe_skl_send_or_enqueue_def split: if_splits)

text \<open>
  The invariant of any run: what was pending at the start followed by what the run
  enqueued is what the kicks delivered followed by what is still pending.
\<close>

lemma fifo_invariant:
  "notif_run ops vbe = Some vbe' \<Longrightarrow>
     map msg (pending_msg_list vbe) @ map msg (enqueued ops vbe) =
       drained ops vbe @ map msg (pending_msg_list vbe')"
proof (induction ops arbitrary: vbe)
  case Nil
  then show ?case by simp
next
  case (Cons op ops)
  from Cons.prems obtain vbe1 where
    st: "notif_step op vbe = Some vbe1" and run: "notif_run ops vbe1 = Some vbe'"
    by (auto split: option.splits)
  note ih = Cons.IH[OF run]
  show ?case
  proof (cases op)
    case (Send m alloc_ok)
    with st have "vbe_skl_send_or_enqueue alloc_ok vbe m = Some vbe1" by simp
    from send_pending[OF this] ih Send st show ?thesis by simp
  next
    case Kick
    with st have v: "vbe1 = vbe_skl_ipc_fe_not_reply_get vbe" by simp
    have "map msg (pending_msg_list vbe) =
       map msg (take (length (avail (not_rx_vq vbe))) (pending_msg_list vbe)) @
       map msg (pending_msg_list (vbe_skl_ipc_fe_not_reply_get vbe))"
      by (simp add: drain_pending flip: map_append)
    then show ?thesis using Kick ih st v
      by (simp add: drain_copied)
  next
    case (Peer_adds lens)
    then show ?thesis using ih st by auto
  qed
qed

text \<open>
  Claim C4. A notification sent while the queue has no free buffer is appended to the
  pending list (given the entry for it can be allocated), and a send that returns
  reports success: its return value and \<^verbatim>\<open>result->ret\<close> are 0. A kick sends the
  pending notifications from the head of the list and stops at the first one that cannot
  be sent: it delivers the first \<open>n\<close> pending notifications in order and keeps the
  rest, where \<open>n\<close> is the number of free buffers. Over any interleaving of sends, kicks
  and buffers added by the peer, the notifications delivered from the pending list
  followed by those still pending are exactly the notifications enqueued, in enqueue
  order.
\<close>

theorem pending_queue_fifo:
  fixes vbe :: "inbox_msg vbe_notif"
  shows "(avail (not_rx_vq vbe) = [] \<and> alloc_ok \<longrightarrow>
            vbe_send_kctl_msg alloc_ok sz vbe name u =
              Some ((0, 0), vbe\<lparr>pending_msg_list := pending_msg_list vbe @
                          [\<lparr>msg = Vfe_kctl_noti name u, sizeof_msg = sz\<rparr>]\<rparr>))
       \<and> (vbe_send_kctl_msg alloc_ok sz vbe name u = Some (r, vbe1) \<longrightarrow> r = (0, 0))
       \<and> pending_msg_list (vbe_skl_ipc_fe_not_reply_get vbe) =
            drop (length (avail (not_rx_vq vbe))) (pending_msg_list vbe)
       \<and> copied (not_rx_vq (vbe_skl_ipc_fe_not_reply_get vbe)) =
            copied (not_rx_vq vbe) @
              map msg (take (length (avail (not_rx_vq vbe))) (pending_msg_list vbe))
       \<and> (notif_run ops vbe = Some vbe' \<longrightarrow>
            map msg (pending_msg_list vbe) @ map msg (enqueued ops vbe) =
              drained ops vbe @ map msg (pending_msg_list vbe'))"
proof -
  have "avail (not_rx_vq vbe) = [] \<and> alloc_ok \<longrightarrow>
            vbe_send_kctl_msg alloc_ok sz vbe name u =
              Some ((0, 0), vbe\<lparr>pending_msg_list := pending_msg_list vbe @
                          [\<lparr>msg = Vfe_kctl_noti name u, sizeof_msg = sz\<rparr>]\<rparr>)"
    by (simp add: vbe_send_kctl_msg_def vbe_skl_send_or_enqueue_def try_send_full)
  moreover have "vbe_send_kctl_msg alloc_ok sz vbe name u = Some (r, vbe1) \<longrightarrow> r = (0, 0)"
    by (auto simp: vbe_send_kctl_msg_def split: option.splits)
  ultimately show ?thesis
    using drain_pending[of vbe] drain_copied[of vbe] fifo_invariant[of ops vbe vbe'] by blast
qed

text \<open>
  Two notifications are queued on the full queue and delivered by two kicks in their
  order; the third is sent at once and reaches the queue before the second.
\<close>

theorem pending_queue_fifo_witness:
  "avail (not_rx_vq ex_full_vbe) = []
   \<and> vbe_send_kctl_msg True 64 ex_full_vbe ''Speaker Switch'' [1] =
       Some ((0, 0), ex_full_vbe\<lparr>pending_msg_list := [ex_noti 1]\<rparr>)
   \<and> enqueued ex_notif_ops ex_full_vbe = [ex_noti 1, ex_noti 2]
   \<and> drained ex_notif_ops ex_full_vbe = [msg (ex_noti 1), msg (ex_noti 2)]
   \<and> map_option pending_msg_list (notif_run ex_notif_ops ex_full_vbe) = Some []
   \<and> map_option (copied \<circ> not_rx_vq) (notif_run ex_notif_ops ex_full_vbe) =
       Some [msg (ex_noti 1), msg (ex_noti 3), msg (ex_noti 2)]"
  using pending_queue_fifo[of ex_full_vbe True 64 "''Speaker Switch''" "[1]"
      "(0, 0)" "ex_full_vbe\<lparr>pending_msg_list := [ex_noti 1]\<rparr>" ex_notif_ops
      "ex_full_vbe\<lparr>not_rx_vq := \<lparr>avail = [], relchains = [64, 64, 64],
          copied = [msg (ex_noti 1), msg (ex_noti 3), msg (ex_noti 2)], endchains = 3\<rparr>\<rparr>"]
  by (simp add: ex_full_vbe_def ex_noti_def ex_notif_ops_def vbe_skl_send_or_enqueue_def
      vbe_send_kctl_msg_def
      vbe_skl_try_send_def virtio_vq_has_descs_def virtio_vq_getchain_def
      virtio_vq_relchain_def virtio_vq_endchains_def vbe_skl_ipc_fe_not_reply_get.simps Let_def)

subsection \<open>The position descriptor\<close>

lemma update_without_target:
  "update_target vbe s = None \<Longrightarrow> skl_notify_stream_update env vbe s = vbe"
  by (auto simp: update_target_def skl_notify_stream_update_def split: option.splits)

lemma update_with_target:
  fixes vbe :: "('w::len) vbe_pcm"
  assumes "update_target vbe s = Some p"
  shows "skl_notify_stream_update env vbe s =
    vbe\<lparr>pos_mem := (pos_mem vbe)(p := (pos_mem vbe p)
             \<lparr>hw_ptr := ops_pointer env (fst s) (snd s),
              be_irq_cnt := be_irq_cnt (pos_mem vbe p) + 1\<rparr>),
        trace := trace vbe @
          [Ops_call Op_pointer (fst s) (snd s),
           Store_hw_ptr p (ops_pointer env (fst s) (snd s)),
           Store_be_irq_cnt p (be_irq_cnt (pos_mem vbe p) + 1),
           Wmb,
           Virtio_vq_interrupt SKL_VIRTIO_IPC_CMD_RX_VQ]\<rparr>"
  using assms
  by (auto simp: update_target_def skl_notify_stream_update_def Let_def log_event_def
      store_hw_ptr_def store_be_irq_cnt_def split: option.splits)

lemma update_client_list:
  "client_list (skl_notify_stream_update env vbe s) = client_list vbe"
  by (cases "update_target vbe s") (simp_all add: update_without_target update_with_target)

lemma update_target_update:
  "update_target (skl_notify_stream_update env vbe s) t = update_target vbe t"
  by (simp add: update_target_def vbe_find_substream_info_def update_client_list)

lemma updates_of_update:
  "updates_of (skl_notify_stream_update env vbe s) q us = updates_of vbe q us"
  by (simp add: updates_of_def update_target_update)

lemma update_counter:
  fixes vbe :: "('w::len) vbe_pcm"
  shows "be_irq_cnt (pos_mem (skl_notify_stream_update env vbe s) q) =
     be_irq_cnt (pos_mem vbe q) + (if update_target vbe s = Some q then 1 else 0)"
  by (cases "update_target vbe s") (auto simp add: update_without_target update_with_target)

lemma notify_run_counter:
  fixes vbe :: "('w::len) vbe_pcm"
  shows "be_irq_cnt (pos_mem (notify_run us vbe) q) =
     be_irq_cnt (pos_mem vbe q) + of_nat (updates_of vbe q us)"
proof (induction us arbitrary: vbe)
  case Nil
  then show ?case by (simp add: updates_of_def)
next
  case (Cons u us)
  obtain env s where u: "u = (env, s)" by (cases u)
  have "be_irq_cnt (pos_mem (notify_run (u # us) vbe) q) =
        be_irq_cnt (pos_mem (skl_notify_stream_update env vbe s) q)
          + of_nat (updates_of (skl_notify_stream_update env vbe s) q us)"
    using Cons[of "skl_notify_stream_update env vbe s"] u by simp
  also have "\<dots> = be_irq_cnt (pos_mem vbe q) + (if update_target vbe s = Some q then 1 else 0)
          + of_nat (updates_of vbe q us)"
    by (simp only: update_counter updates_of_update)
  also have "\<dots> = be_irq_cnt (pos_mem vbe q) + of_nat (updates_of vbe q (u # us))"
    using u by (simp add: updates_of_def)
  finally show ?case .
qed

lemma word_add_no_wrap:
  fixes c :: "('w::len) word"
  assumes "unat c + n < 2 ^ LENGTH('w)"
  shows "c \<le> c + of_nat n"
  using assms
  by (simp add: no_olen_add_nat of_nat_inverse)

text \<open>
  Claim C1, as the code has it. For a stream with a session and a mapped descriptor, one
  backend update performs, in this order: the read of the hardware pointer, the store of
  \<^verbatim>\<open>hw_ptr\<close>, the store of the incremented \<^verbatim>\<open>be_irq_cnt\<close>, the store barrier, the
  interrupt on the command receive queue. In every state a reader can observe during the
  update, in program order, a counter that shows the increment comes with the new
  \<^verbatim>\<open>hw_ptr\<close>: the pointer is stored first, so the new pointer is visible before its
  counter increment and never the other way round. Over any sequence of updates the
  counter of a descriptor advances by the number of updates made to it, modulo the width
  of the counter; it is non-decreasing as long as that sum does not wrap.
\<close>

theorem backend_update_order:
  fixes vbe :: "('w::len) vbe_pcm"
  assumes "vbe_find_substream_info vbe substream = Some substr_info"
    and "info_pos_desc substr_info = Some p"
  shows "trace (skl_notify_stream_update env vbe substream) = trace vbe @
           [Ops_call Op_pointer (fst substream) (snd substream),
            Store_hw_ptr p (ops_pointer env (fst substream) (snd substream)),
            Store_be_irq_cnt p (be_irq_cnt (pos_mem vbe p) + 1),
            Wmb,
            Virtio_vq_interrupt SKL_VIRTIO_IPC_CMD_RX_VQ]
       \<and> pos_mem (skl_notify_stream_update env vbe substream) =
           (pos_mem vbe)(p := (pos_mem vbe p)
             \<lparr>hw_ptr := ops_pointer env (fst substream) (snd substream),
              be_irq_cnt := be_irq_cnt (pos_mem vbe p) + 1\<rparr>)
       \<and> list_all (\<lambda>m. be_irq_cnt (m p) = be_irq_cnt (pos_mem vbe p) + 1 \<longrightarrow>
                       hw_ptr (m p) = ops_pointer env (fst substream) (snd substream))
           (observable (drop (length (trace vbe)) (trace (skl_notify_stream_update env vbe substream)))
              (pos_mem vbe))
       \<and> be_irq_cnt (pos_mem (notify_run us vbe) q) =
           be_irq_cnt (pos_mem vbe q) + of_nat (updates_of vbe q us)
       \<and> (unat (be_irq_cnt (pos_mem vbe q)) + updates_of vbe q us < 2 ^ LENGTH('w) \<longrightarrow>
            be_irq_cnt (pos_mem vbe q) \<le> be_irq_cnt (pos_mem (notify_run us vbe) q))"
proof -
  have t: "update_target vbe substream = Some p"
    using assms by (simp add: update_target_def)
  note u = update_with_target[OF t, of env]
  have 1: "trace (skl_notify_stream_update env vbe substream) = trace vbe @
           [Ops_call Op_pointer (fst substream) (snd substream),
            Store_hw_ptr p (ops_pointer env (fst substream) (snd substream)),
            Store_be_irq_cnt p (be_irq_cnt (pos_mem vbe p) + 1),
            Wmb,
            Virtio_vq_interrupt SKL_VIRTIO_IPC_CMD_RX_VQ]"
    by (simp add: u)
  have 2: "pos_mem (skl_notify_stream_update env vbe substream) =
           (pos_mem vbe)(p := (pos_mem vbe p)
             \<lparr>hw_ptr := ops_pointer env (fst substream) (snd substream),
              be_irq_cnt := be_irq_cnt (pos_mem vbe p) + 1\<rparr>)"
    by (simp add: u)
  have 3: "list_all (\<lambda>m. be_irq_cnt (m p) = be_irq_cnt (pos_mem vbe p) + 1 \<longrightarrow>
                       hw_ptr (m p) = ops_pointer env (fst substream) (snd substream))
           (observable (drop (length (trace vbe)) (trace (skl_notify_stream_update env vbe substream)))
              (pos_mem vbe))"
    by (simp add: 1)
  have 4: "be_irq_cnt (pos_mem (notify_run us vbe) q) =
           be_irq_cnt (pos_mem vbe q) + of_nat (updates_of vbe q us)"
    by (rule notify_run_counter)
  have 5: "unat (be_irq_cnt (pos_mem vbe q)) + updates_of vbe q us < 2 ^ LENGTH('w) \<longrightarrow>
            be_irq_cnt (pos_mem vbe q) \<le> be_irq_cnt (pos_mem (notify_run us vbe) q)"
    by (simp add: 4 word_add_no_wrap)
  from 1 2 3 4 5 show ?thesis by blast
qed


text \<open>The update at a concrete stream: counter 5, pointer 480.\<close>

theorem backend_update_order_witness:
  "vbe_find_substream_info (ex_vbe 5) (''Speaker'', 0) = Some ex_session
   \<and> info_pos_desc ex_session = Some 4096
   \<and> trace (skl_notify_stream_update ex_be_env (ex_vbe 5) (''Speaker'', 0)) =
        [Ops_call Op_pointer ''Speaker'' 0, Store_hw_ptr 4096 480, Store_be_irq_cnt 4096 6,
         Wmb, Virtio_vq_interrupt SKL_VIRTIO_IPC_CMD_RX_VQ]
   \<and> pos_mem (skl_notify_stream_update ex_be_env (ex_vbe 5) (''Speaker'', 0)) 4096 =
        \<lparr>hw_ptr = 480, be_irq_cnt = 6, fe_irq_cnt = 5\<rparr>
   \<and> updates_of (ex_vbe 5) 4096 [(ex_be_env, (''Speaker'', 0)), (ex_be_env, (''Speaker'', 0))] = 2
   \<and> be_irq_cnt (pos_mem (notify_run [(ex_be_env, (''Speaker'', 0)), (ex_be_env, (''Speaker'', 0))]
        (ex_vbe 5)) 4096) = 7"
  using backend_update_order[of "ex_vbe 5" "(''Speaker'', 0)" ex_session 4096 ex_be_env
      "[(ex_be_env, (''Speaker'', 0)), (ex_be_env, (''Speaker'', 0))]" 4096]
  by (simp add: ex_vbe_def ex_session_def ex_be_env_def vbe_find_substream_info_def
      updates_of_def update_target_def)

text \<open>
  The claim as the spec words it fails: after the second event of the update the new
  pointer 480 is in the descriptor while the counter still reads 5; and a 32-bit counter
  at its maximum reads 0 after the update.
\<close>

theorem backend_update_order_counterexample:
  "hw_ptr (pos_mem (ex_vbe 5) 4096) = 0
   \<and> be_irq_cnt (pos_mem (ex_vbe 5) 4096) = 5
   \<and> hw_ptr ((observable (trace (skl_notify_stream_update ex_be_env (ex_vbe 5) (''Speaker'', 0)))
        (pos_mem (ex_vbe 5)) ! 1) 4096) = 480
   \<and> be_irq_cnt ((observable (trace (skl_notify_stream_update ex_be_env (ex_vbe 5) (''Speaker'', 0)))
        (pos_mem (ex_vbe 5)) ! 1) 4096) = 5
   \<and> be_irq_cnt (pos_mem (ex_vbe 4294967295) 4096) = 4294967295
   \<and> be_irq_cnt (pos_mem (skl_notify_stream_update ex_be_env (ex_vbe 4294967295)
        (''Speaker'', 0)) 4096) = 0"
  by (simp add: ex_vbe_def ex_session_def ex_be_env_def vbe_find_substream_info_def
      skl_notify_stream_update_def log_event_def store_hw_ptr_def store_be_irq_cnt_def Let_def)

subsection \<open>The PCM handler and the session registry\<close>

lemma client_list_log_event [simp]: "client_list (log_event e vbe) = client_list vbe"
  by (simp add: log_event_def)

lemma client_list_put_substream [simp]: "client_list (put_substream i d s vbe) = client_list vbe"
  by (simp add: put_substream_def)

lemma trace_put_substream [simp]: "trace (put_substream i d s vbe) = trace vbe"
  by (simp add: put_substream_def)

lemma session_keys_cong: "client_list a = client_list b \<Longrightarrow> session_keys a = session_keys b"
  by (simp add: session_keys_def)

lemma map_key_remove1:
  assumes "find (\<lambda>i. info_direction i = d \<and> info_pcm_id i = p) l = Some info"
  shows "map (\<lambda>i. (info_pcm_id i, info_direction i)) (remove1 info l) =
         remove1 (p, d) (map (\<lambda>i. (info_pcm_id i, info_direction i)) l)"
proof -
  from assms have k: "info_direction info = d \<and> info_pcm_id info = p"
    by (auto simp: find_Some_iff)
  from assms show ?thesis
  proof (induction l)
    case Nil
    then show ?case by simp
  next
    case (Cons a l)
    show ?case
    proof (cases "info_direction a = d \<and> info_pcm_id a = p")
      case True
      with Cons.prems have "a = info" by simp
      with True show ?thesis by simp
    next
      case False
      with k have "a \<noteq> info" by auto
      moreover from False Cons.prems
      have "find (\<lambda>i. info_direction i = d \<and> info_pcm_id i = p) l = Some info"
        by (auto split: if_splits)
      ultimately show ?thesis using False Cons.IH by auto
    qed
  qed
qed

lemma map_key_map_first:
  assumes "info_pcm_id new = info_pcm_id old" "info_direction new = info_direction old"
  shows "map (\<lambda>i. (info_pcm_id i, info_direction i)) (map_first (\<lambda>i. i = old) (\<lambda>_. new) l) =
         map (\<lambda>i. (info_pcm_id i, info_direction i)) l"
  using assms by (induction l) auto

lemma prepare_dma_key:
  assumes "vbe_skl_prepare_dma env info s c = Some (ret, info1, s1)"
  shows "info_pcm_id info1 = info_pcm_id info \<and> info_direction info1 = info_direction info"
  using assms
  by (auto simp: vbe_skl_prepare_dma_def Let_def split: if_splits option.splits list.splits)

lemma close_keys:
  assumes "client_list vbe = client # clients"
    and "vbe_find_substream_info_by_pcm client p d = Some info"
    and "vbe_skl_pcm_close env vbe info m = Some (ret, rx, vbe')"
  shows "session_keys vbe' = remove1 (p, d) (session_keys vbe)"
proof -
  from assms(2) have f: "find (\<lambda>i. info_direction i = d \<and> info_pcm_id i = p) (substr_info_list client) = Some info"
    by simp
  have "client_list vbe' =
          client\<lparr>substr_info_list := remove1 info (substr_info_list client)\<rparr> # clients"
    using assms(1,3)
    by (auto simp: vbe_skl_pcm_close_def Let_def delete_info_def log_event_def
        split: option.splits list.splits)
  then show ?thesis using assms(1) map_key_remove1[OF f]
    by (simp add: session_keys_def)
qed

lemma prepare_keys:
  assumes "client_list vbe = client # clients"
    and "vbe_skl_pcm_prepare env vbe info m = Some (ret, rx, vbe')"
  shows "session_keys vbe' = session_keys vbe"
proof (cases "tx_data m")
  case None
  with assms(2) show ?thesis by (simp add: vbe_skl_pcm_prepare_def)
next
  case (Some tx)
  show ?thesis
  proof (cases "get_substream vbe (info_pcm_id info) (info_direction info)")
    case None
    with Some assms(2) show ?thesis by (simp add: vbe_skl_pcm_prepare_def)
  next
    case s: (Some s)
    show ?thesis
    proof (cases "vbe_skl_prepare_dma env info s (tx_dma_conf tx)")
      case None
      with Some s assms(2) show ?thesis by (simp add: vbe_skl_pcm_prepare_def)
    next
      case p: (Some r)
      obtain r1 info1 s1 where r: "r = (r1, info1, s1)" by (cases r)
      have c: "client_list vbe' = client_list (replace_info info info1
              (put_substream (info_pcm_id info) (info_direction info) s1 vbe))"
        using assms(2) Some s p r
        by (auto simp: vbe_skl_pcm_prepare_def Let_def split: if_splits)
      from prepare_dma_key[OF p[unfolded r]] show ?thesis
        using assms(1) c
        by (simp add: session_keys_def replace_info_def map_key_map_first)
    qed
  qed
qed

lemma hw_params_effect:
  assumes "vbe_skl_pcm_hw_params env vbe info m = Some (ret, rx, vbe')"
  shows "client_list vbe' = client_list vbe \<and>
         (\<exists>ps. trace vbe' = trace vbe @ [Ops_call (Op_hw_params ps) (info_pcm_id info) (info_direction info)])"
  using assms
  by (auto simp: vbe_skl_pcm_hw_params_def Let_def log_event_def split: option.splits if_splits)

lemma trigger_effect:
  assumes "vbe_skl_pcm_trigger env vbe info m = Some (ret, rx, vbe')"
  shows "client_list vbe' = client_list vbe \<and>
         (\<exists>c. trace vbe' = trace vbe @ [Ops_call (Op_trigger c) (info_pcm_id info) (info_direction info)])"
  using assms
  by (auto simp: vbe_skl_pcm_trigger_def Let_def log_event_def split: option.splits if_splits)

lemma find_by_pcm_key:
  assumes "vbe_find_substream_info_by_pcm client p d = Some info"
  shows "info_pcm_id info = p \<and> info_direction info = d"
  using assms by (auto simp: find_Some_iff)

lemma open_keys:
  assumes "client_list vbe = client # clients"
    and "vbe_skl_pcm_open env vbe m = Some (ret, rx, vbe')"
    and "0 \<le> ret"
  shows "session_keys vbe' = (desc_pcm_id (header m), desc_direction (header m)) # session_keys vbe"
  using assms
  by (auto simp: vbe_skl_pcm_open_def Let_def vbe_skl_allocate_runtime_def
      vbe_skl_add_substream_info_def session_keys_def
      split: option.splits if_splits prod.splits list.splits)

lemma prepare_effect:
  assumes "vbe_skl_pcm_prepare env vbe info m = Some (ret, rx, vbe')" and "0 \<le> ret"
  shows "trace vbe' = trace vbe @ [Ops_call Op_prepare (info_pcm_id info) (info_direction info)]"
  using assms
  by (auto simp: vbe_skl_pcm_prepare_def Let_def log_event_def replace_info_def
      split: option.splits if_splits prod.splits list.splits)

lemmas ex_defs = ex_vbe_def ex_vbe_closed_def ex_rtd_def ex_session_def ex_be_env_def
  ex_pcm_msg_def ex_rx_def ex_tx_def

lemmas handler_defs = vbe_skl_msg_pcm_handle_def vbe_skl_pcm_open_def vbe_skl_pcm_close_def
  vbe_skl_pcm_prepare_def vbe_skl_pcm_hw_params_def vbe_skl_pcm_trigger_def
  vbe_skl_find_pcm_by_name_def vbe_skl_find_rtd_by_pcm_id_def vbe_skl_is_valid_pcm_id_def
  vbe_skl_pcm_check_permission_def vbe_skl_pcm_get_domain_id_def pcm_substream_def
  set_pcm_substream_def get_substream_def put_substream_def set_ret_def
  vbe_skl_allocate_runtime_def vbe_skl_add_substream_info_def vbe_skl_prepare_dma_def
  dma_pages_def replace_info_def delete_info_def log_event_def session_keys_def Let_def

lemma handlers_read_payload_only:
  "vbe_skl_pcm_close env vbe info (m\<lparr>header := h\<rparr>) = vbe_skl_pcm_close env vbe info m"
  "vbe_skl_pcm_prepare env vbe info (m\<lparr>header := h\<rparr>) = vbe_skl_pcm_prepare env vbe info m"
  "vbe_skl_pcm_hw_params env vbe info (m\<lparr>header := h\<rparr>) = vbe_skl_pcm_hw_params env vbe info m"
  "vbe_skl_pcm_trigger env vbe info (m\<lparr>header := h\<rparr>) = vbe_skl_pcm_trigger env vbe info m"
  "vbe_skl_pcm_close env vbe info (m\<lparr>tx_size := a, rx_size := b\<rparr>) = vbe_skl_pcm_close env vbe info m"
  "vbe_skl_pcm_prepare env vbe info (m\<lparr>tx_size := a, rx_size := b\<rparr>) = vbe_skl_pcm_prepare env vbe info m"
  "vbe_skl_pcm_hw_params env vbe info (m\<lparr>tx_size := a, rx_size := b\<rparr>) = vbe_skl_pcm_hw_params env vbe info m"
  "vbe_skl_pcm_trigger env vbe info (m\<lparr>tx_size := a, rx_size := b\<rparr>) = vbe_skl_pcm_trigger env vbe info m"
  "vbe_skl_pcm_open env vbe (m\<lparr>tx_size := a, rx_size := b\<rparr>) = vbe_skl_pcm_open env vbe m"
  by (simp_all add: vbe_skl_pcm_close_def vbe_skl_pcm_prepare_def vbe_skl_pcm_hw_params_def
      vbe_skl_pcm_trigger_def vbe_skl_pcm_open_def Let_def
      cong: option.case_cong list.case_cong prod.case_cong if_cong)

lemma handle_ignores_domain_id:
  "cmd (header m) \<noteq> VFE_MSG_PCM_OPEN \<Longrightarrow>
     vbe_skl_msg_pcm_handle env vbe (m\<lparr>header := (header m)\<lparr>domain_id := d\<rparr>\<rparr>) =
     vbe_skl_msg_pcm_handle env vbe m"
  by (simp add: vbe_skl_msg_pcm_handle_def handlers_read_payload_only
      cong: vfe_ipc_msg_type.case_cong option.case_cong list.case_cong if_cong)

lemma handle_ignores_sizes:
  "vbe_skl_msg_pcm_handle env vbe (m\<lparr>tx_size := a, rx_size := b\<rparr>) =
     vbe_skl_msg_pcm_handle env vbe m"
  by (simp add: vbe_skl_msg_pcm_handle_def handlers_read_payload_only
      cong: vfe_ipc_msg_type.case_cong option.case_cong list.case_cong if_cong)

text \<open>
  Claim C5, as the code has it. With a client registered, every PCM command other than
  Open is handled only when the first client holds a session for the stream id and
  direction of the header; otherwise it is rejected with \<^verbatim>\<open>-ENODEV\<close> and nothing
  changes. The registry knows two states of a stream, no session and session: an Open
  that returns a non-negative value adds the session, a Close of a stream with a session
  removes it, and every other command leaves the registry as it is. The handler keeps no
  further stream state: HwParams and Trigger on a stream with a session are passed to
  the stream operation in whatever order they arrive, and so is a Prepare whose DMA
  setup succeeds.
\<close>

theorem pcm_session_registry:
  fixes vbe :: "('w::len) vbe_pcm"
  assumes "client_list vbe = client # clients"
  shows "(cmd (header m) \<noteq> VFE_MSG_PCM_OPEN \<and>
          vbe_find_substream_info_by_pcm client (desc_pcm_id (header m)) (desc_direction (header m)) = None
            \<longrightarrow> vbe_skl_msg_pcm_handle env vbe m = Some (- ENODEV, rx_data m, vbe))
       \<and> (vbe_skl_msg_pcm_handle env vbe m = Some (ret, rx, vbe') \<longrightarrow>
            (cmd (header m) = VFE_MSG_PCM_OPEN \<and> 0 \<le> ret \<longrightarrow>
               session_keys vbe' =
                 (desc_pcm_id (header m), desc_direction (header m)) # session_keys vbe)
          \<and> (cmd (header m) = VFE_MSG_PCM_CLOSE \<and>
              vbe_find_substream_info_by_pcm client (desc_pcm_id (header m)) (desc_direction (header m)) \<noteq> None
               \<longrightarrow> session_keys vbe' =
                 remove1 (desc_pcm_id (header m), desc_direction (header m)) (session_keys vbe))
          \<and> (cmd (header m) \<noteq> VFE_MSG_PCM_OPEN \<and> cmd (header m) \<noteq> VFE_MSG_PCM_CLOSE \<longrightarrow>
               session_keys vbe' = session_keys vbe)
          \<and> (cmd (header m) = VFE_MSG_PCM_HW_PARAMS \<and>
              vbe_find_substream_info_by_pcm client (desc_pcm_id (header m)) (desc_direction (header m)) \<noteq> None
               \<longrightarrow> (\<exists>ps. trace vbe' = trace vbe @
                     [Ops_call (Op_hw_params ps) (desc_pcm_id (header m)) (desc_direction (header m))]))
          \<and> (cmd (header m) = VFE_MSG_PCM_PREPARE \<and> 0 \<le> ret \<and>
              vbe_find_substream_info_by_pcm client (desc_pcm_id (header m)) (desc_direction (header m)) \<noteq> None
               \<longrightarrow> trace vbe' = trace vbe @
                     [Ops_call Op_prepare (desc_pcm_id (header m)) (desc_direction (header m))])
          \<and> (cmd (header m) = VFE_MSG_PCM_TRIGGER \<and>
              vbe_find_substream_info_by_pcm client (desc_pcm_id (header m)) (desc_direction (header m)) \<noteq> None
               \<longrightarrow> (\<exists>c. trace vbe' = trace vbe @
                     [Ops_call (Op_trigger c) (desc_pcm_id (header m)) (desc_direction (header m))])))"
    (is "?A \<and> (?H \<longrightarrow> ?O \<and> ?C \<and> ?K \<and> ?P \<and> ?R \<and> ?T)")
proof -
  let ?F = "vbe_find_substream_info_by_pcm client (desc_pcm_id (header m)) (desc_direction (header m))"
  have A: ?A using assms by (simp add: vbe_skl_msg_pcm_handle_def)
  have B: "?O \<and> ?C \<and> ?K \<and> ?P \<and> ?R \<and> ?T" if h: ?H
  proof (cases "cmd (header m) = VFE_MSG_PCM_OPEN")
    case True
    with h assms have "vbe_skl_pcm_open env vbe m = Some (ret, rx, vbe')"
      by (simp add: vbe_skl_msg_pcm_handle_def)
    from open_keys[OF assms this] True show ?thesis by simp
  next
    case no: False
    show ?thesis
    proof (cases ?F)
      case None
      with A no h have "vbe' = vbe" by simp
      with None no show ?thesis by simp
    next
      case (Some info)
      note k = find_by_pcm_key[OF Some]
      show ?thesis
      proof (cases "cmd (header m)")
        case VFE_MSG_PCM_OPEN
        with no show ?thesis by simp
      next
        case VFE_MSG_PCM_CLOSE
        with h assms Some have "vbe_skl_pcm_close env vbe info m = Some (ret, rx, vbe')"
          by (simp add: vbe_skl_msg_pcm_handle_def)
        from close_keys[OF assms Some this] VFE_MSG_PCM_CLOSE show ?thesis by simp
      next
        case VFE_MSG_PCM_PREPARE
        with h assms Some have p: "vbe_skl_pcm_prepare env vbe info m = Some (ret, rx, vbe')"
          by (simp add: vbe_skl_msg_pcm_handle_def)
        from prepare_keys[OF assms p] prepare_effect[OF p] k VFE_MSG_PCM_PREPARE
        show ?thesis by simp
      next
        case VFE_MSG_PCM_HW_PARAMS
        with h assms Some have p: "vbe_skl_pcm_hw_params env vbe info m = Some (ret, rx, vbe')"
          by (simp add: vbe_skl_msg_pcm_handle_def)
        from hw_params_effect[OF p] k VFE_MSG_PCM_HW_PARAMS
        show ?thesis by (auto intro: session_keys_cong)
      next
        case VFE_MSG_PCM_TRIGGER
        with h assms Some have p: "vbe_skl_pcm_trigger env vbe info m = Some (ret, rx, vbe')"
          by (simp add: vbe_skl_msg_pcm_handle_def)
        from trigger_effect[OF p] k VFE_MSG_PCM_TRIGGER
        show ?thesis by (auto intro: session_keys_cong)
      qed (use h assms Some in \<open>auto simp: vbe_skl_msg_pcm_handle_def\<close>)
    qed
  qed
  from A B show ?thesis by blast
qed

text \<open>
  A Trigger for a stream without a session is rejected; a Close removes the session.
\<close>

theorem pcm_session_registry_witness:
  "client_list ex_vbe_closed = [\<lparr>substr_info_list = [], tplg = None\<rparr>]
   \<and> vbe_skl_msg_pcm_handle ex_be_env ex_vbe_closed (ex_pcm_msg VFE_MSG_PCM_TRIGGER 1) =
       Some (- ENODEV, Some ex_rx, ex_vbe_closed)
   \<and> vbe_skl_msg_pcm_handle ex_be_env (ex_vbe 0) (ex_pcm_msg VFE_MSG_PCM_CLOSE 1) =
       Some (0, Some (ex_rx\<lparr>rx_ret := 0\<rparr>), ex_vbe_after_close)
   \<and> session_keys (ex_vbe 0) = [(''Speaker'', 0)]
   \<and> session_keys ex_vbe_after_close = []"
  using pcm_session_registry[of ex_vbe_closed "\<lparr>substr_info_list = [], tplg = None\<rparr>" "[]"
      "ex_pcm_msg VFE_MSG_PCM_TRIGGER 1" ex_be_env 0 None ex_vbe_closed]
    pcm_session_registry[of "ex_vbe 0" "\<lparr>substr_info_list = [ex_session], tplg = None\<rparr>" "[]"
      "ex_pcm_msg VFE_MSG_PCM_CLOSE 1" ex_be_env 0 "Some (ex_rx\<lparr>rx_ret := 0\<rparr>)" ex_vbe_after_close]
  by (simp add: ex_defs ex_vbe_after_close_def handler_defs)

text \<open>
  The transition table is not enforced: a Trigger right after Open, with no HwParams and
  no Prepare in between, is passed to the stream and returns 0.
\<close>

theorem pcm_session_registry_counterexample:
  "map_option fst (pcm_run ex_be_env ex_vbe_closed
      [ex_pcm_msg VFE_MSG_PCM_OPEN 1, ex_pcm_msg VFE_MSG_PCM_TRIGGER 1]) = Some [0, 0]
   \<and> map_option (trace \<circ> snd) (pcm_run ex_be_env ex_vbe_closed
      [ex_pcm_msg VFE_MSG_PCM_OPEN 1, ex_pcm_msg VFE_MSG_PCM_TRIGGER 1]) =
       Some [Ops_call Op_open ''Speaker'' 0, Ops_call (Op_trigger 1) ''Speaker'' 0]"
  by (simp add: ex_defs handler_defs)

text \<open>
  Claim C6, as the code has it. An Open for a stream whose substream is in use
  (\<^verbatim>\<open>ref_count > 0\<close>) and which passes the PCM lookup and the permission check fails
  with \<^verbatim>\<open>-EBUSY\<close>; the status is written to the reply, no session is created and the
  state does not change.
\<close>

theorem open_busy:
  fixes vbe :: "('w::len) vbe_pcm"
  assumes "vbe_skl_find_pcm_by_name vbe (desc_pcm_id (header m)) = Some pcm"
    and "0 \<le> vbe_skl_pcm_check_permission env vbe (domain_id (header m))
               (desc_pcm_id (header m)) (desc_direction (header m))"
    and "pcm_substream pcm (desc_direction (header m)) = Some substream"
    and "ref_count substream > 0"
  shows "vbe_skl_pcm_open env vbe m = Some (- EBUSY, set_ret (- EBUSY) (rx_data m), vbe)
       \<and> (client_list vbe \<noteq> [] \<and> cmd (header m) = VFE_MSG_PCM_OPEN \<longrightarrow>
            vbe_skl_msg_pcm_handle env vbe m = Some (- EBUSY, set_ret (- EBUSY) (rx_data m), vbe))"
proof -
  have o: "vbe_skl_pcm_open env vbe m = Some (- EBUSY, set_ret (- EBUSY) (rx_data m), vbe)"
    using assms by (simp add: vbe_skl_pcm_open_def Let_def)
  then show ?thesis
    by (auto simp: vbe_skl_msg_pcm_handle_def split: list.splits)
qed

theorem open_busy_witness:
  "vbe_skl_find_pcm_by_name (ex_vbe 0) ''Speaker'' = Some (ex_rtd 1)
   \<and> vbe_skl_pcm_check_permission ex_be_env (ex_vbe 0) 1 ''Speaker'' 0 = 0
   \<and> map_option ref_count (pcm_substream (ex_rtd 1) 0) = Some 1
   \<and> session_keys (ex_vbe 0) = [(''Speaker'', 0)]
   \<and> vbe_skl_msg_pcm_handle ex_be_env (ex_vbe 0) (ex_pcm_msg VFE_MSG_PCM_OPEN 1) =
       Some (- EBUSY, Some (ex_rx\<lparr>rx_ret := - EBUSY\<rparr>), ex_vbe 0)"
  using open_busy[of "ex_vbe 0" "ex_pcm_msg VFE_MSG_PCM_OPEN 1" "ex_rtd 1" ex_be_env
      "\<lparr>ref_count = 1, runtime = True, sg_table = Some [8192, 12288]\<rparr>"]
  by (simp add: ex_defs vbe_skl_find_pcm_by_name_def vbe_skl_find_rtd_by_pcm_id_def
      vbe_skl_is_valid_pcm_id_def vbe_skl_pcm_check_permission_def
      vbe_skl_pcm_get_domain_id_def pcm_substream_def set_ret_def session_keys_def)

text \<open>
  The permission check comes first: an Open from domain 2 for the stream of domain 1,
  which is in use, fails with \<^verbatim>\<open>-EACCES\<close>, not with \<^verbatim>\<open>-EBUSY\<close>.
\<close>

theorem open_busy_counterexample:
  "map_option ref_count (get_substream (ex_vbe 0) ''Speaker'' 0) = Some 1
   \<and> session_keys (ex_vbe 0) = [(''Speaker'', 0)]
   \<and> vbe_skl_msg_pcm_handle ex_be_env (ex_vbe 0) (ex_pcm_msg VFE_MSG_PCM_OPEN 2) =
       Some (- EACCES, Some (ex_rx\<lparr>rx_ret := - EACCES\<rparr>), ex_vbe 0)"
  by (simp add: ex_defs handler_defs)

text \<open>
  Claim C7, as the code has it. For an Open on a PCM that is found and whose owning
  domain resolves, the permission check passes exactly when the domain id of the header
  equals the owning domain id; when they differ the Open fails with \<^verbatim>\<open>-EACCES\<close>,
  the state does not change, so nothing is passed to the stream and no session is
  created. The commands other than Open are not access-checked: what the handler does
  with them does not depend on the domain id of the header.
\<close>

theorem pcm_access_control:
  fixes vbe :: "('w::len) vbe_pcm"
  assumes "vbe_skl_find_pcm_by_name vbe (desc_pcm_id (header m)) = Some pcm"
    and "vbe_skl_pcm_get_domain_id env vbe (desc_pcm_id (header m)) (desc_direction (header m))
           = Inr owner"
  shows "((vbe_skl_pcm_check_permission env vbe (domain_id (header m))
             (desc_pcm_id (header m)) (desc_direction (header m)) = 0)
           = (domain_id (header m) = owner))
       \<and> (domain_id (header m) \<noteq> owner \<longrightarrow>
            vbe_skl_pcm_open env vbe m = Some (- EACCES, set_ret (- EACCES) (rx_data m), vbe))
       \<and> (domain_id (header m) \<noteq> owner \<and> client_list vbe \<noteq> [] \<and>
          cmd (header m) = VFE_MSG_PCM_OPEN \<longrightarrow>
            vbe_skl_msg_pcm_handle env vbe m =
              Some (- EACCES, set_ret (- EACCES) (rx_data m), vbe))
       \<and> (cmd (header m) \<noteq> VFE_MSG_PCM_OPEN \<longrightarrow>
            vbe_skl_msg_pcm_handle env vbe (m\<lparr>header := (header m)\<lparr>domain_id := d\<rparr>\<rparr>) =
            vbe_skl_msg_pcm_handle env vbe m)"
proof -
  have 1: "(vbe_skl_pcm_check_permission env vbe (domain_id (header m))
             (desc_pcm_id (header m)) (desc_direction (header m)) = 0)
           = (domain_id (header m) = owner)"
    using assms(2) by (simp add: vbe_skl_pcm_check_permission_def)
  have 2: "vbe_skl_pcm_open env vbe m = Some (- EACCES, set_ret (- EACCES) (rx_data m), vbe)"
    if "domain_id (header m) \<noteq> owner"
    using assms that by (simp add: vbe_skl_pcm_open_def vbe_skl_pcm_check_permission_def Let_def)
  have 3: "vbe_skl_msg_pcm_handle env vbe m = Some (- EACCES, set_ret (- EACCES) (rx_data m), vbe)"
    if "domain_id (header m) \<noteq> owner" "client_list vbe \<noteq> []" "cmd (header m) = VFE_MSG_PCM_OPEN"
    using 2 that by (auto simp: vbe_skl_msg_pcm_handle_def split: list.splits)
  from 1 2 3 handle_ignores_domain_id[of m env vbe d] show ?thesis by blast
qed

theorem pcm_access_control_witness:
  "vbe_skl_find_pcm_by_name ex_vbe_closed ''Speaker'' = Some (ex_rtd 0)
   \<and> vbe_skl_pcm_get_domain_id ex_be_env ex_vbe_closed ''Speaker'' 0 = Inr 1
   \<and> vbe_skl_pcm_check_permission ex_be_env ex_vbe_closed 2 ''Speaker'' 0 = - EACCES
   \<and> vbe_skl_pcm_check_permission ex_be_env ex_vbe_closed 1 ''Speaker'' 0 = 0
   \<and> vbe_skl_msg_pcm_handle ex_be_env ex_vbe_closed (ex_pcm_msg VFE_MSG_PCM_OPEN 2) =
       Some (- EACCES, Some (ex_rx\<lparr>rx_ret := - EACCES\<rparr>), ex_vbe_closed)"
  using pcm_access_control[of ex_vbe_closed "ex_pcm_msg VFE_MSG_PCM_OPEN 2" "ex_rtd 0" ex_be_env 1 2]
  by (simp add: ex_defs vbe_skl_find_pcm_by_name_def vbe_skl_find_rtd_by_pcm_id_def
      vbe_skl_is_valid_pcm_id_def vbe_skl_pcm_check_permission_def
      vbe_skl_pcm_get_domain_id_def set_ret_def)

text \<open>
  A Trigger from domain 2 on the open stream of domain 1 is passed to the stream.
\<close>

theorem pcm_access_control_counterexample:
  "vbe_skl_pcm_get_domain_id ex_be_env (ex_vbe 0) ''Speaker'' 0 = Inr 1
   \<and> domain_id (header (ex_pcm_msg VFE_MSG_PCM_TRIGGER 2)) = 2
   \<and> map_option fst (vbe_skl_msg_pcm_handle ex_be_env (ex_vbe 0) (ex_pcm_msg VFE_MSG_PCM_TRIGGER 2))
       = Some 0
   \<and> map_option (trace \<circ> snd \<circ> snd)
        (vbe_skl_msg_pcm_handle ex_be_env (ex_vbe 0) (ex_pcm_msg VFE_MSG_PCM_TRIGGER 2))
       = Some [Ops_call (Op_trigger 1) ''Speaker'' 0]"
  by (simp add: ex_defs handler_defs)

text \<open>
  Claim C9 at the failing input. The PCM handlers never look at \<^verbatim>\<open>tx_size\<close> and
  \<^verbatim>\<open>rx_size\<close>: the result of a PCM message is the same whatever sizes it carries, and
  a HwParams message with both sizes 0, routed by \<^verbatim>\<open>vbe_skl_not_fwd\<close>, is passed to
  the stream operation and returns 0. A resource Info message with a reply size of 0,
  routed the same way, is rejected with \<^verbatim>\<open>-EINVAL\<close>: the configuration handlers do
  validate.
\<close>

theorem pcm_payload_size_unchecked:
  "vbe_skl_msg_pcm_handle env vbe (m\<lparr>tx_size := a, rx_size := b\<rparr>) =
     vbe_skl_msg_pcm_handle env vbe m
   \<and> map_option fst (vbe_skl_not_fwd ex_be_env (ex_vbe 0) 108
        ((ex_pcm_msg VFE_MSG_PCM_HW_PARAMS 1)\<lparr>tx_size := 0, rx_size := 0\<rparr>)) = Some 0
   \<and> map_option (trace \<circ> snd \<circ> snd) (vbe_skl_not_fwd ex_be_env (ex_vbe 0) 108
        ((ex_pcm_msg VFE_MSG_PCM_HW_PARAMS 1)\<lparr>tx_size := 0, rx_size := 0\<rparr>)) =
       Some [Ops_call (Op_hw_params [2, 48000]) ''Speaker'' 0]
   \<and> map_option fst (vbe_skl_not_fwd ex_be_env (ex_vbe 0) 108
        (ex_res_msg VFE_MSG_CFG_RES_INFO 0 0)) = Some (- EINVAL)"
proof -
  have "vbe_skl_msg_pcm_handle env vbe (m\<lparr>tx_size := a, rx_size := b\<rparr>) =
     vbe_skl_msg_pcm_handle env vbe m"
    by (rule handle_ignores_sizes)
  then show ?thesis
    by (simp add: ex_defs handler_defs ex_res_msg_def vbe_skl_not_fwd_def
        vbe_skl_msg_cfg_handle_def vbe_skl_cfg_resource_info_def)
qed

subsection \<open>Resource transfer\<close>

lemma memcpy_guest_outside:
  "a < dst \<or> dst + length bs \<le> a \<Longrightarrow> memcpy_guest dst bs mem a = mem a"
  by (induction bs arbitrary: dst mem) auto

lemma memcpy_guest_inside:
  "i < length bs \<Longrightarrow> memcpy_guest dst bs mem (dst + i) = bs ! i"
proof (induction bs arbitrary: dst mem i)
  case Nil
  then show ?case by simp
next
  case (Cons b bs)
  show ?case
  proof (cases i)
    case 0
    then show ?thesis by (simp add: memcpy_guest_outside)
  next
    case (Suc j)
    with Cons.prems have "j < length bs" by simp
    then have "memcpy_guest (Suc dst) bs (mem(dst := b)) (Suc dst + j) = bs ! j"
      by (rule Cons.IH)
    with Suc show ?thesis by simp
  qed
qed

text \<open>
  Claim C8. An Info request with a reply buffer of the right size, for a resource that
  resolves, returns 0 and reports the size of the resource. A Descriptor request with a
  reply buffer of the right size, for a resource that resolves then and whose
  destination region maps: when the size the caller supplies is the size of the
  resource, so in particular for a resource unchanged since the Info request and the
  size Info reported, it returns 0, writes status 0, and copies exactly the bytes of the
  resource to the destination, leaving every byte outside the region as it was; when
  the sizes differ it fails with \<^verbatim>\<open>-EINVAL\<close>, writes that status, and copies nothing.
\<close>

theorem resource_transfer:
  fixes vbe :: "('w::len) vbe_pcm"
  assumes "rx_data mi = Some res_info" and "rx_size mi = sizeof_resource_info env"
    and "vbe_find_res_hndl vbe (res_type res_info) (res_name res_info) = Some (Some fw)"
    and "rx_data md = Some res_desc" and "rx_size md = sizeof_resource_desc env"
    and "vbe_find_res_hndl vbe' (res_type res_desc) (res_name res_desc) = Some (Some fw')"
  shows "vbe_skl_cfg_resource_info env vbe mi =
           Some (0, Some (res_info\<lparr>res_size := length fw\<rparr>), vbe)
       \<and> (length fw' = res_size res_desc \<and>
          map_guest_phys env (res_phys_addr res_desc) (res_size res_desc) \<longrightarrow>
            (\<exists>vbe''. vbe_skl_cfg_resource_desc env vbe' md =
                       Some (0, Some (res_desc\<lparr>rx_ret := 0\<rparr>), vbe'')
              \<and> (\<forall>i < length fw'. guest_mem vbe'' (res_phys_addr res_desc + i) = fw' ! i)
              \<and> (\<forall>a. a < res_phys_addr res_desc \<or> res_phys_addr res_desc + length fw' \<le> a
                     \<longrightarrow> guest_mem vbe'' a = guest_mem vbe' a)))
       \<and> (length fw' \<noteq> res_size res_desc \<longrightarrow>
            vbe_skl_cfg_resource_desc env vbe' md =
              Some (- EINVAL, Some (res_desc\<lparr>rx_ret := - EINVAL\<rparr>), vbe'))"
proof -
  have 1: "vbe_skl_cfg_resource_info env vbe mi =
           Some (0, Some (res_info\<lparr>res_size := length fw\<rparr>), vbe)"
    using assms(1-3) by (simp add: vbe_skl_cfg_resource_info_def)
  have 3: "vbe_skl_cfg_resource_desc env vbe' md =
              Some (- EINVAL, Some (res_desc\<lparr>rx_ret := - EINVAL\<rparr>), vbe')"
    if "length fw' \<noteq> res_size res_desc"
    using assms(4-6) that by (simp add: vbe_skl_cfg_resource_desc_def)
  have 2: "\<exists>vbe''. vbe_skl_cfg_resource_desc env vbe' md =
                       Some (0, Some (res_desc\<lparr>rx_ret := 0\<rparr>), vbe'')
              \<and> (\<forall>i < length fw'. guest_mem vbe'' (res_phys_addr res_desc + i) = fw' ! i)
              \<and> (\<forall>a. a < res_phys_addr res_desc \<or> res_phys_addr res_desc + length fw' \<le> a
                     \<longrightarrow> guest_mem vbe'' a = guest_mem vbe' a)"
    if "length fw' = res_size res_desc"
      "map_guest_phys env (res_phys_addr res_desc) (res_size res_desc)"
    using assms(4-6) that
    by (simp add: vbe_skl_cfg_resource_desc_def Let_def log_event_def
        memcpy_guest_inside memcpy_guest_outside)
  from 1 2 3 show ?thesis by blast
qed

text \<open>The base firmware of three bytes, transferred to guest address 256.\<close>

theorem resource_transfer_witness:
  "vbe_find_res_hndl (ex_vbe 0) VFE_FIRMWARE_RES [] = Some (Some [1, 2, 3])
   \<and> vbe_skl_cfg_resource_info ex_be_env (ex_vbe 0) (ex_res_msg VFE_MSG_CFG_RES_INFO 0 76) =
       Some (0, Some (ex_rx\<lparr>res_size := 3, res_phys_addr := 256\<rparr>), ex_vbe 0)
   \<and> map_option fst
        (vbe_skl_cfg_resource_desc ex_be_env (ex_vbe 0) (ex_res_msg VFE_MSG_CFG_RES_DESC 3 88)) =
       Some 0
   \<and> map_option (\<lambda>r. map (guest_mem (snd (snd r))) [255, 256, 257, 258, 259])
        (vbe_skl_cfg_resource_desc ex_be_env (ex_vbe 0) (ex_res_msg VFE_MSG_CFG_RES_DESC 3 88)) =
       Some [0, 1, 2, 3, 0]
   \<and> vbe_skl_cfg_resource_desc ex_be_env (ex_vbe 0) (ex_res_msg VFE_MSG_CFG_RES_DESC 2 88) =
       Some (- EINVAL, Some (ex_rx\<lparr>res_size := 2, res_phys_addr := 256, rx_ret := - EINVAL\<rparr>),
             ex_vbe 0)"
  using resource_transfer[where mi = "ex_res_msg VFE_MSG_CFG_RES_INFO 0 76"
      and res_info = "ex_rx\<lparr>res_size := 0, res_phys_addr := 256\<rparr>" and env = ex_be_env
      and vbe = "ex_vbe 0" and fw = "[1, 2, 3]"
      and md = "ex_res_msg VFE_MSG_CFG_RES_DESC 3 88"
      and res_desc = "ex_rx\<lparr>res_size := 3, res_phys_addr := 256\<rparr>"
      and vbe' = "ex_vbe 0" and fw' = "[1, 2, 3]"]
    resource_transfer[where mi = "ex_res_msg VFE_MSG_CFG_RES_INFO 0 76"
      and res_info = "ex_rx\<lparr>res_size := 0, res_phys_addr := 256\<rparr>" and env = ex_be_env
      and vbe = "ex_vbe 0" and fw = "[1, 2, 3]"
      and md = "ex_res_msg VFE_MSG_CFG_RES_DESC 2 88"
      and res_desc = "ex_rx\<lparr>res_size := 2, res_phys_addr := 256\<rparr>"
      and vbe' = "ex_vbe 0" and fw' = "[1, 2, 3]"]
  by (simp add: ex_res_msg_def ex_rx_def ex_vbe_def ex_be_env_def vbe_find_res_hndl_def
      vbe_skl_cfg_resource_info_def vbe_skl_cfg_resource_desc_def log_event_def Let_def)

subsection \<open>The wake signal on the frontend\<close>

lemma rx_loop_length: "length (fst (vfe_cmd_handle_rx_loop pe infos)) = length infos"
  by (induction infos) (auto split: prod.splits)

lemma rx_loop_nth:
  "i < length infos \<Longrightarrow>
     fst (vfe_cmd_handle_rx_loop pe infos) ! i = fst (vfe_cmd_handle_rx_body pe (infos ! i))"
proof (induction infos arbitrary: i)
  case Nil
  then show ?case by simp
next
  case (Cons a infos)
  then show ?case by (cases i) (auto split: prod.splits)
qed

lemma rx_loop_events:
  "i < length infos \<Longrightarrow>
     set (snd (vfe_cmd_handle_rx_body pe (infos ! i))) \<subseteq> set (snd (vfe_cmd_handle_rx_loop pe infos))"
proof (induction infos arbitrary: i)
  case Nil
  then show ?case by simp
next
  case (Cons a infos)
  show ?case
  proof (cases i)
    case 0
    then show ?thesis by (auto split: prod.splits)
  next
    case (Suc j)
    with Cons.prems have "j < length infos" by simp
    from Cons.IH[OF this] Suc show ?thesis by (auto split: prod.splits)
  qed
qed

lemma rx_body_skip:
  "\<not> rx_pending info \<Longrightarrow> vfe_cmd_handle_rx_body pe info = (info, [])"
  by (auto simp: rx_pending_def vfe_cmd_handle_rx_body_def split: option.splits)

lemma rx_body_pending:
  assumes "rx_pending info" and "fe_pos_desc info = Some d"
  shows "fe_pos_desc (fst (vfe_cmd_handle_rx_body pe info)) = Some (d\<lparr>fe_irq_cnt := be_irq_cnt d\<rparr>)"
    and "fe_substream (fst (vfe_cmd_handle_rx_body pe info)) =
           snd (pe (d\<lparr>fe_irq_cnt := be_irq_cnt d\<rparr>) (fe_substream info))"
    and "Period_elapsed (fe_pcm_id info) (fe_direction info) \<in> set (snd (vfe_cmd_handle_rx_body pe info))"
    and "1 < irq_diff (be_irq_cnt d) (fe_irq_cnt d) \<Longrightarrow>
          Warn_missed_interrupts (irq_diff (be_irq_cnt d) (fe_irq_cnt d)) (fe_pcm_id info)
            \<in> set (snd (vfe_cmd_handle_rx_body pe info))"
    and "fe_open (fst (vfe_cmd_handle_rx_body pe info)) = fe_open info"
    and "fe_running (fst (vfe_cmd_handle_rx_body pe info)) = fe_running info"
  using assms
  by (auto simp: rx_pending_def vfe_cmd_handle_rx_body_def Let_def split: prod.splits)

text \<open>
  Claim C2. On a wake signal, every stream that is open and running, whose substream is
  not locked and whose descriptor shows \<^verbatim>\<open>be_irq_cnt\<close> different from
  \<^verbatim>\<open>fe_irq_cnt\<close>, gets \<^verbatim>\<open>fe_irq_cnt\<close> set to \<^verbatim>\<open>be_irq_cnt\<close> (pointer and backend
  counter stay as they are) and the period-elapsed procedure is invoked on it; when the
  gap the handler computes, \<^verbatim>\<open>irq_diff\<close>, is greater than 1 the missed-interrupts
  warning is logged and the update is made all the same. Every other stream, in
  particular one whose counters are equal, is left unchanged. The handler has no return
  value, so no error is returned.
\<close>

theorem wake_signal_updates:
  fixes infos :: "(('w::len), 'rt) vfe_substream_info list"
  assumes "i < length infos" and "vfe_cmd_handle_rx pe infos = (infos', evs)"
  shows "length infos' = length infos
       \<and> (rx_pending (infos ! i) \<longrightarrow>
            (\<exists>d. fe_pos_desc (infos ! i) = Some d
               \<and> fe_pos_desc (infos' ! i) = Some (d\<lparr>fe_irq_cnt := be_irq_cnt d\<rparr>)
               \<and> fe_substream (infos' ! i) =
                   snd (pe (d\<lparr>fe_irq_cnt := be_irq_cnt d\<rparr>) (fe_substream (infos ! i)))
               \<and> Period_elapsed (fe_pcm_id (infos ! i)) (fe_direction (infos ! i)) \<in> set evs
               \<and> (1 < irq_diff (be_irq_cnt d) (fe_irq_cnt d) \<longrightarrow>
                    Warn_missed_interrupts (irq_diff (be_irq_cnt d) (fe_irq_cnt d))
                      (fe_pcm_id (infos ! i)) \<in> set evs)))
       \<and> (\<not> rx_pending (infos ! i) \<longrightarrow> infos' ! i = infos ! i)"
proof -
  from assms(2) have i': "infos' = fst (vfe_cmd_handle_rx_loop pe infos)"
    and e: "evs = Rmb # snd (vfe_cmd_handle_rx_loop pe infos)"
    by (auto simp: vfe_cmd_handle_rx_def split: prod.splits)
  have n: "infos' ! i = fst (vfe_cmd_handle_rx_body pe (infos ! i))"
    using assms(1) i' by (simp add: rx_loop_nth)
  have s: "set (snd (vfe_cmd_handle_rx_body pe (infos ! i))) \<subseteq> set evs"
    using rx_loop_events[OF assms(1), of pe] e by auto
  have 1: "length infos' = length infos" using i' by (simp add: rx_loop_length)
  have 3: "infos' ! i = infos ! i" if "\<not> rx_pending (infos ! i)"
    using n rx_body_skip[OF that, of pe] by simp
  have 2: "\<exists>d. fe_pos_desc (infos ! i) = Some d
               \<and> fe_pos_desc (infos' ! i) = Some (d\<lparr>fe_irq_cnt := be_irq_cnt d\<rparr>)
               \<and> fe_substream (infos' ! i) =
                   snd (pe (d\<lparr>fe_irq_cnt := be_irq_cnt d\<rparr>) (fe_substream (infos ! i)))
               \<and> Period_elapsed (fe_pcm_id (infos ! i)) (fe_direction (infos ! i)) \<in> set evs
               \<and> (1 < irq_diff (be_irq_cnt d) (fe_irq_cnt d) \<longrightarrow>
                    Warn_missed_interrupts (irq_diff (be_irq_cnt d) (fe_irq_cnt d))
                      (fe_pcm_id (infos ! i)) \<in> set evs)"
    if p: "rx_pending (infos ! i)"
  proof -
    from p obtain d where d: "fe_pos_desc (infos ! i) = Some d"
      by (auto simp: rx_pending_def split: option.splits)
    from rx_body_pending[OF p d, of pe] n s d show ?thesis by auto
  qed
  from 1 2 3 show ?thesis by blast
qed

text \<open>Three streams: a gap of 3, a locked stream, equal counters.\<close>

theorem wake_signal_updates_witness:
  "rx_pending (ex_fe_info ''Speaker'' 8 5 False)
   \<and> \<not> rx_pending (ex_fe_info ''Mic'' 8 5 True)
   \<and> \<not> rx_pending (ex_fe_info ''Hdmi'' 4 4 False)
   \<and> irq_diff (8 :: 32 word) 5 = 3
   \<and> vfe_cmd_handle_rx ex_period_elapsed
        [ex_fe_info ''Speaker'' 8 5 False, ex_fe_info ''Mic'' 8 5 True, ex_fe_info ''Hdmi'' 4 4 False] =
       ([(ex_fe_info ''Speaker'' 8 8 False)\<lparr>fe_substream := 1\<rparr>,
         ex_fe_info ''Mic'' 8 5 True, ex_fe_info ''Hdmi'' 4 4 False],
        [Rmb, Warn_missed_interrupts 3 ''Speaker'', Period_elapsed ''Speaker'' 0])"
  using wake_signal_updates[where i = 0 and pe = ex_period_elapsed
      and infos = "[ex_fe_info ''Speaker'' 8 5 False, ex_fe_info ''Mic'' 8 5 True,
                    ex_fe_info ''Hdmi'' 4 4 False]"
      and infos' = "[(ex_fe_info ''Speaker'' 8 8 False)\<lparr>fe_substream := 1\<rparr>,
                     ex_fe_info ''Mic'' 8 5 True, ex_fe_info ''Hdmi'' 4 4 False]"
      and evs = "[Rmb, Warn_missed_interrupts 3 ''Speaker'', Period_elapsed ''Speaker'' 0]"]
  by (simp add: ex_fe_info_def ex_period_elapsed_def rx_pending_def irq_diff_def
      vfe_cmd_handle_rx_def vfe_cmd_handle_rx_body_def Let_def)

subsection \<open>The frontend callbacks on substreams without a PCM\<close>

text \<open>
  Claim C10. On a substream whose PCM id is empty or the sentinel ``((null))'', each of
  the callbacks open, close, hw_params, prepare and trigger returns 0 and leaves the
  state of the frontend as it is, so no message is added to the queue and no session
  flag changes; for open and trigger provided the local platform call before the check
  does not fail.
\<close>

theorem invalid_pcm_id_callbacks:
  fixes vfe :: "(('w::len), 'rt) snd_skl_vfe"
  assumes "pcm_id = [] \<or> pcm_id = ''((null))''"
  shows "(0 \<le> skl_platform_open_ret env \<longrightarrow> vfe_pcm_open env vfe (pcm_id, dir) = Some (0, vfe))
       \<and> vfe_pcm_close env vfe (pcm_id, dir) = Some (0, vfe)
       \<and> vfe_pcm_hw_params env vfe (pcm_id, dir) params = Some (0, vfe)
       \<and> vfe_pcm_prepare env vfe (pcm_id, dir) = Some (0, vfe)
       \<and> (0 \<le> skl_platform_pcm_trigger_ret env \<longrightarrow>
            vfe_pcm_trigger env vfe (pcm_id, dir) c = Some (0, vfe))"
proof -
  have v: "vfe_is_valid_fe_substream (pcm_id, dir) \<noteq> 0"
    using assms by (auto simp: vfe_is_valid_fe_substream_def vfe_is_valid_pcm_id_def)
  show ?thesis
    by (simp add: v vfe_pcm_open_def vfe_pcm_close_def vfe_pcm_hw_params_def
        vfe_pcm_prepare_def vfe_pcm_trigger_def)
qed

text \<open>The five callbacks on a substream with the sentinel id and on one with an empty id.\<close>

theorem invalid_pcm_id_callbacks_witness:
  "vfe_pcm_open ex_fe_env ex_vfe (''((null))'', 0) = Some (0, ex_vfe)
   \<and> vfe_pcm_close ex_fe_env ex_vfe (''((null))'', 0) = Some (0, ex_vfe)
   \<and> vfe_pcm_hw_params ex_fe_env ex_vfe (''((null))'', 0) [2, 48000] = Some (0, ex_vfe)
   \<and> vfe_pcm_prepare ex_fe_env ex_vfe (''((null))'', 0) = Some (0, ex_vfe)
   \<and> vfe_pcm_trigger ex_fe_env ex_vfe (''((null))'', 0) 1 = Some (0, ex_vfe)
   \<and> vfe_pcm_close ex_fe_env ex_vfe ([], 1) = Some (0, ex_vfe)
   \<and> vfe_trace ex_vfe = []"
  using invalid_pcm_id_callbacks[where pcm_id = "''((null))''" and env = ex_fe_env
      and vfe = ex_vfe and dir = 0 and params = "[2, 48000]" and c = 1]
    invalid_pcm_id_callbacks[where pcm_id = "[]" and env = ex_fe_env
      and vfe = ex_vfe and dir = 1 and params = "[2, 48000]" and c = 1]
  by (simp add: ex_fe_env_def ex_vfe_def)


subsection \<open>Request timeout and late completion\<close>




























end
